theory Spec2Isabelle
  imports Complex_Main
begin

section \<open>The k-point grid routines of kgrid.py and job\_control.py\<close>

text \<open>
  The routines compute with Python and numpy floats. The embedding computes with real
  numbers. The four basic operations, \<open>floor\<close> and \<open>ceil\<close> are read as the exact
  operations. The power \<open>x ** (1 / 3)\<close> is not: the float power is not the exact cube
  root (\<open>1000 ** (1 / 3)\<close> is \<open>9.999999999999998\<close>), and the floor taken next turns
  that last bit into a whole grid point. So every routine takes the power as a
  parameter \<open>pw\<close>: \<open>pw x\<close> is the float that \<open>x ** (1 / 3)\<close> evaluates to. The exact
  cube root \<open>root 3\<close> is one such function; a statement made for every \<open>pw\<close> holds of
  whatever the float power returns.

  Where the float computation leaves the real numbers (a division by zero gives an
  infinity or a NaN, a fractional power of a negative number gives a NaN) the source
  has no test: it carries the non-finite value on, every comparison with it is false,
  and the conversion of the counts to integers at the end raises. The embedding
  returns \<open>None\<close> there: the routine raises and returns no grid.
\<close>

subsection \<open>The structure object\<close>

text \<open>
  The routines read three things of the \<open>atoms\<close> argument: the reciprocal cell (a
  3 by 3 array, three row vectors), the cell lengths and angles (an array of six
  numbers), and the volume. The lengths are norms and the volume is an absolute
  value: none of them is negative.
\<close>

record atoms =
  rcell_0 :: "real \<times> real \<times> real"
  rcell_1 :: "real \<times> real \<times> real"
  rcell_2 :: "real \<times> real \<times> real"
  cell_a :: real
  cell_b :: real
  cell_c :: real
  cell_alpha :: real
  cell_beta :: real
  cell_gamma :: real
  cell_volume :: real

definition get_reciprocal_cell :: "atoms \<Rightarrow> (real \<times> real \<times> real) list" where
  "get_reciprocal_cell a = [rcell_0 a, rcell_1 a, rcell_2 a]"

definition get_cell_lengths_and_angles :: "atoms \<Rightarrow> real list" where
  "get_cell_lengths_and_angles a =
     [cell_a a, cell_b a, cell_c a, cell_alpha a, cell_beta a, cell_gamma a]"

definition get_volume :: "atoms \<Rightarrow> real" where
  "get_volume a = cell_volume a"

text \<open>\<open>np.linalg.norm\<close> of a row of the reciprocal cell.\<close>

definition linalg_norm :: "real \<times> real \<times> real \<Rightarrow> real" where
  "linalg_norm v = (case v of (x, y, z) \<Rightarrow> sqrt (x * x + y * y + z * z))"

subsection \<open>Numeric helpers of Python and numpy\<close>

text \<open>
  \<open>np.isclose(a, b)\<close> with its default tolerances: \<open>|a - b| <= atol + rtol * |b|\<close>,
  \<open>rtol = 1e-05\<close>, \<open>atol = 1e-08\<close>.
\<close>

definition isclose :: "real \<Rightarrow> real \<Rightarrow> bool" where
  "isclose a b \<longleftrightarrow> \<bar>a - b\<bar> \<le> 1 / 10 ^ 8 + (1 / 10 ^ 5) * \<bar>b\<bar>"

text \<open>
  \<open>np.argsort\<close>: the indices that sort the array. On an array this short numpy sorts
  by insertion, so equal keys keep their index order; \<open>sort_key\<close> is stable too.
\<close>

definition argsort :: "real list \<Rightarrow> nat list" where
  "argsort xs = sort_key (\<lambda>i. xs ! i) [0..<length xs]"

text \<open>\<open>int(x)\<close> on a float truncates towards zero.\<close>

definition py_int :: "real \<Rightarrow> int" where
  "py_int x = (if 0 \<le> x then \<lfloor>x\<rfloor> else \<lceil>x\<rceil>)"

text \<open>
  Where the float computation of the routines stays inside the real numbers: no
  division by zero (\<open>kpd / vol\<close>, \<open>mult / l\<close>) and no negative number under the
  power \<open>** (1 / 3)\<close>. Elsewhere a count is a NaN or an infinity, and \<open>int\<close>,
  \<open>math.floor\<close> and \<open>math.ceil\<close> raise on it.
\<close>

definition stays_real :: "real list \<Rightarrow> real \<Rightarrow> real \<Rightarrow> bool" where
  "stays_real lengths vol kpd \<longleftrightarrow>
     vol \<noteq> 0 \<and> lengths ! 0 \<noteq> 0 \<and> lengths ! 1 \<noteq> 0 \<and> lengths ! 2 \<noteq> 0 \<and>
     0 \<le> kpd / vol * lengths ! 0 * lengths ! 1 * lengths ! 2"

subsection \<open>get\_kpts\_from\_kpd (kgrid.py, lines 4 to 74)\<close>

text \<open>What \<open>show_kpts\<close> prints; the formatting of the numbers is left out.\<close>

datatype report =
  Kgrid_line "int list"
  | Kpd_line real real
  | Kvec_line nat real

text \<open>\<open>nkpt[j] = nkpt[j] + step\<close>\<close>

definition incr :: "real list \<Rightarrow> nat \<Rightarrow> real \<Rightarrow> real list" where
  "incr nkpt j step = nkpt[j := nkpt ! j + step]"

text \<open>\<open>vol * nkpt[0]*nkpt[1]*nkpt[2]\<close>\<close>

definition density :: "real \<Rightarrow> real list \<Rightarrow> real" where
  "density vol nkpt = vol * nkpt ! 0 * nkpt ! 1 * nkpt ! 2"

text \<open>
  Lines 37 to 60: the tie-aware batch of increments. It returns the grid, the density
  reached and the index \<open>i\<close> at which the loop of lines 62 to 65 goes on.
\<close>

definition repair_pass ::
  "real \<Rightarrow> real \<Rightarrow> real \<Rightarrow> real list \<Rightarrow> nat list \<Rightarrow> real list \<Rightarrow> real
     \<Rightarrow> real list \<times> real \<times> nat" where
  "repair_pass vol kpd step nkpt_frac check_order nkpt actual_kpd =
     (if actual_kpd < kpd then
        if isclose (nkpt_frac ! (check_order ! 0)) (nkpt_frac ! (check_order ! 1)) \<and>
           isclose (nkpt_frac ! (check_order ! 1)) (nkpt_frac ! (check_order ! 2))
        then
          let nkpt = incr nkpt (check_order ! 0) step;
              nkpt = incr nkpt (check_order ! 1) step;
              nkpt = incr nkpt (check_order ! 2) step
          in (nkpt, density vol nkpt, 3)
        else if isclose (nkpt_frac ! (check_order ! 0)) (nkpt_frac ! (check_order ! 1))
        then
          let nkpt = incr nkpt (check_order ! 0) step;
              nkpt = incr nkpt (check_order ! 1) step
          in (nkpt, density vol nkpt, 2)
        else if isclose (nkpt_frac ! (check_order ! 1)) (nkpt_frac ! (check_order ! 2))
        then
          let nkpt = incr nkpt (check_order ! 0) step;
              actual_kpd = density vol nkpt
          in if actual_kpd < kpd then
               let nkpt = incr nkpt (check_order ! 1) step;
                   nkpt = incr nkpt (check_order ! 2) step
               in (nkpt, density vol nkpt, 3)
             else (nkpt, actual_kpd, 3)
        else (nkpt, actual_kpd, 0)
      else (nkpt, actual_kpd, 0))"

text \<open>Lines 62 to 65: one axis at a time, in the order of \<open>check_order\<close>.\<close>

function bump_loop ::
  "real \<Rightarrow> real \<Rightarrow> real \<Rightarrow> nat list \<Rightarrow> real list \<Rightarrow> real \<Rightarrow> nat \<Rightarrow> real list \<times> real" where
  "bump_loop vol kpd step check_order nkpt actual_kpd i =
     (if actual_kpd < kpd \<and> i \<le> 2 then
        let nkpt = incr nkpt (check_order ! i) step
        in bump_loop vol kpd step check_order nkpt (density vol nkpt) (i + 1)
      else (nkpt, actual_kpd))"
  by pat_completeness auto
termination
  by (relation "measure (\<lambda>(vol, kpd, step, check_order, nkpt, actual_kpd, i). 3 - i)") auto

declare bump_loop.simps [simp del]

definition get_kpts_from_kpd ::
  "(real \<Rightarrow> real) \<Rightarrow> atoms \<Rightarrow> real \<Rightarrow> bool \<Rightarrow> bool \<Rightarrow> report list \<Rightarrow> int list option \<times> report list" where
  "get_kpts_from_kpd pw atoms kpd only_even show_kpts out =
     (let step = (if only_even then 2 else 1);
          rcell = get_reciprocal_cell atoms;
          rlengths = map (\<lambda>i. linalg_norm (rcell ! i)) [0..<3];
          lengths = take 3 (get_cell_lengths_and_angles atoms);
          vol = get_volume atoms
      in if \<not> stays_real lengths vol kpd then (None, out)
      else
        let min_kpts = kpd / vol;
            mult = pw (min_kpts * lengths ! 0 * lengths ! 1 * lengths ! 2);
            nkpt_frac = map (\<lambda>l. max (mult / l) step) lengths;
            nkpt = map (\<lambda>f. of_int \<lfloor>f / step\<rfloor> * step) nkpt_frac;
            delta_ceil = map (\<lambda>f. of_int \<lceil>f / step\<rceil> * step - f) nkpt_frac;
            actual_kpd = density vol nkpt;
            check_order = argsort delta_ceil;
            (nkpt, actual_kpd, i) =
               repair_pass vol kpd step nkpt_frac check_order nkpt actual_kpd;
            (nkpt, actual_kpd) = bump_loop vol kpd step check_order nkpt actual_kpd i;
            kpts = map (\<lambda>i. py_int (nkpt ! i)) [0..<3]
        in (Some kpts,
            if show_kpts then
              out @ [Kgrid_line kpts, Kpd_line kpd actual_kpd]
                  @ map (\<lambda>i. Kvec_line i (of_int (kpts ! i) / rlengths ! i)) [0..<3]
            else out))"

subsection \<open>safe\_kgrid\_from\_cell\_volume (kgrid.py, lines 81 to 132)\<close>

text \<open>The same search with the step written as the literal \<open>1\<close>, and nothing printed.\<close>

definition safe_repair_pass ::
  "real \<Rightarrow> real \<Rightarrow> real list \<Rightarrow> nat list \<Rightarrow> real list \<Rightarrow> real
     \<Rightarrow> real list \<times> real \<times> nat" where
  "safe_repair_pass vol kpd nkpt_frac check_order nkpt actual_kpd =
     (if actual_kpd < kpd then
        if isclose (nkpt_frac ! (check_order ! 0)) (nkpt_frac ! (check_order ! 1)) \<and>
           isclose (nkpt_frac ! (check_order ! 1)) (nkpt_frac ! (check_order ! 2))
        then
          let nkpt = nkpt[check_order ! 0 := nkpt ! (check_order ! 0) + 1];
              nkpt = nkpt[check_order ! 1 := nkpt ! (check_order ! 1) + 1];
              nkpt = nkpt[check_order ! 2 := nkpt ! (check_order ! 2) + 1]
          in (nkpt, vol * nkpt ! 0 * nkpt ! 1 * nkpt ! 2, 3)
        else if isclose (nkpt_frac ! (check_order ! 0)) (nkpt_frac ! (check_order ! 1))
        then
          let nkpt = nkpt[check_order ! 0 := nkpt ! (check_order ! 0) + 1];
              nkpt = nkpt[check_order ! 1 := nkpt ! (check_order ! 1) + 1]
          in (nkpt, vol * nkpt ! 0 * nkpt ! 1 * nkpt ! 2, 2)
        else if isclose (nkpt_frac ! (check_order ! 1)) (nkpt_frac ! (check_order ! 2))
        then
          let nkpt = nkpt[check_order ! 0 := nkpt ! (check_order ! 0) + 1];
              actual_kpd = vol * nkpt ! 0 * nkpt ! 1 * nkpt ! 2
          in if actual_kpd < kpd then
               let nkpt = nkpt[check_order ! 1 := nkpt ! (check_order ! 1) + 1];
                   nkpt = nkpt[check_order ! 2 := nkpt ! (check_order ! 2) + 1]
               in (nkpt, vol * nkpt ! 0 * nkpt ! 1 * nkpt ! 2, 3)
             else (nkpt, actual_kpd, 3)
        else (nkpt, actual_kpd, 0)
      else (nkpt, actual_kpd, 0))"

function safe_bump_loop ::
  "real \<Rightarrow> real \<Rightarrow> nat list \<Rightarrow> real list \<Rightarrow> real \<Rightarrow> nat \<Rightarrow> real list \<times> real" where
  "safe_bump_loop vol kpd check_order nkpt actual_kpd i =
     (if actual_kpd < kpd \<and> i \<le> 2 then
        let nkpt = nkpt[check_order ! i := nkpt ! (check_order ! i) + 1]
        in safe_bump_loop vol kpd check_order nkpt (vol * nkpt ! 0 * nkpt ! 1 * nkpt ! 2) (i + 1)
      else (nkpt, actual_kpd))"
  by pat_completeness auto
termination
  by (relation "measure (\<lambda>(vol, kpd, check_order, nkpt, actual_kpd, i). 3 - i)") auto

declare safe_bump_loop.simps [simp del]

definition safe_kgrid_from_cell_volume :: "(real \<Rightarrow> real) \<Rightarrow> atoms \<Rightarrow> real \<Rightarrow> int list option" where
  "safe_kgrid_from_cell_volume pw atoms kpoint_density =
     (let kpd = kpoint_density;
          lengths_angles = get_cell_lengths_and_angles atoms;
          vol = get_volume atoms;
          lengths = take 3 lengths_angles
      in if \<not> stays_real lengths vol kpd then None
      else
        let ngrid = kpd / vol;
            mult = pw (ngrid * lengths ! 0 * lengths ! 1 * lengths ! 2);
            nkpt_frac = map (\<lambda>l. max (mult / l) 1) lengths;
            nkpt = map (\<lambda>f. of_int \<lfloor>f\<rfloor>) nkpt_frac;
            delta_ceil = map (\<lambda>f. of_int \<lceil>f\<rceil> - f) nkpt_frac;
            actual_kpd = vol * nkpt ! 0 * nkpt ! 1 * nkpt ! 2;
            check_order = argsort delta_ceil;
            (nkpt, actual_kpd, i) =
               safe_repair_pass vol kpd nkpt_frac check_order nkpt actual_kpd;
            (nkpt, actual_kpd) = safe_bump_loop vol kpd check_order nkpt actual_kpd i;
            kp_as_ints = map (\<lambda>i. py_int (nkpt ! i)) [0..<3]
        in Some kp_as_ints)"

subsection \<open>safe\_kgrid\_from\_cell\_volume (job\_control.py, lines 145 to 196)\<close>

definition jc_safe_repair_pass ::
  "real \<Rightarrow> real \<Rightarrow> real list \<Rightarrow> nat list \<Rightarrow> real list \<Rightarrow> real
     \<Rightarrow> real list \<times> real \<times> nat" where
  "jc_safe_repair_pass vol kpd nkpt_frac check_order nkpt actual_kpd =
     (if actual_kpd < kpd then
        if isclose (nkpt_frac ! (check_order ! 0)) (nkpt_frac ! (check_order ! 1)) \<and>
           isclose (nkpt_frac ! (check_order ! 1)) (nkpt_frac ! (check_order ! 2))
        then
          let nkpt = nkpt[check_order ! 0 := nkpt ! (check_order ! 0) + 1];
              nkpt = nkpt[check_order ! 1 := nkpt ! (check_order ! 1) + 1];
              nkpt = nkpt[check_order ! 2 := nkpt ! (check_order ! 2) + 1]
          in (nkpt, vol * nkpt ! 0 * nkpt ! 1 * nkpt ! 2, 3)
        else if isclose (nkpt_frac ! (check_order ! 0)) (nkpt_frac ! (check_order ! 1))
        then
          let nkpt = nkpt[check_order ! 0 := nkpt ! (check_order ! 0) + 1];
              nkpt = nkpt[check_order ! 1 := nkpt ! (check_order ! 1) + 1]
          in (nkpt, vol * nkpt ! 0 * nkpt ! 1 * nkpt ! 2, 2)
        else if isclose (nkpt_frac ! (check_order ! 1)) (nkpt_frac ! (check_order ! 2))
        then
          let nkpt = nkpt[check_order ! 0 := nkpt ! (check_order ! 0) + 1];
              actual_kpd = vol * nkpt ! 0 * nkpt ! 1 * nkpt ! 2
          in if actual_kpd < kpd then
               let nkpt = nkpt[check_order ! 1 := nkpt ! (check_order ! 1) + 1];
                   nkpt = nkpt[check_order ! 2 := nkpt ! (check_order ! 2) + 1]
               in (nkpt, vol * nkpt ! 0 * nkpt ! 1 * nkpt ! 2, 3)
             else (nkpt, actual_kpd, 3)
        else (nkpt, actual_kpd, 0)
      else (nkpt, actual_kpd, 0))"

function jc_safe_bump_loop ::
  "real \<Rightarrow> real \<Rightarrow> nat list \<Rightarrow> real list \<Rightarrow> real \<Rightarrow> nat \<Rightarrow> real list \<times> real" where
  "jc_safe_bump_loop vol kpd check_order nkpt actual_kpd i =
     (if actual_kpd < kpd \<and> i \<le> 2 then
        let nkpt = nkpt[check_order ! i := nkpt ! (check_order ! i) + 1]
        in jc_safe_bump_loop vol kpd check_order nkpt (vol * nkpt ! 0 * nkpt ! 1 * nkpt ! 2) (i + 1)
      else (nkpt, actual_kpd))"
  by pat_completeness auto
termination
  by (relation "measure (\<lambda>(vol, kpd, check_order, nkpt, actual_kpd, i). 3 - i)") auto

declare jc_safe_bump_loop.simps [simp del]

definition jc_safe_kgrid_from_cell_volume :: "(real \<Rightarrow> real) \<Rightarrow> atoms \<Rightarrow> real \<Rightarrow> int list option" where
  "jc_safe_kgrid_from_cell_volume pw atoms kpoint_density =
     (let kpd = kpoint_density;
          lengths_angles = get_cell_lengths_and_angles atoms;
          vol = get_volume atoms;
          lengths = take 3 lengths_angles
      in if \<not> stays_real lengths vol kpd then None
      else
        let ngrid = kpd / vol;
            mult = pw (ngrid * lengths ! 0 * lengths ! 1 * lengths ! 2);
            nkpt_frac = map (\<lambda>l. max (mult / l) 1) lengths;
            nkpt = map (\<lambda>f. of_int \<lfloor>f\<rfloor>) nkpt_frac;
            delta_ceil = map (\<lambda>f. of_int \<lceil>f\<rceil> - f) nkpt_frac;
            actual_kpd = vol * nkpt ! 0 * nkpt ! 1 * nkpt ! 2;
            check_order = argsort delta_ceil;
            (nkpt, actual_kpd, i) =
               jc_safe_repair_pass vol kpd nkpt_frac check_order nkpt actual_kpd;
            (nkpt, actual_kpd) = jc_safe_bump_loop vol kpd check_order nkpt actual_kpd i;
            kp_as_ints = map (\<lambda>i. py_int (nkpt ! i)) [0..<3]
        in Some kp_as_ints)"

subsection \<open>kgrid\_from\_cell\_volume (kgrid.py, lines 138 to 163)\<close>

text \<open>
  \<open>math.floor\<close> and \<open>math.ceil\<close> return integers, so the \<open>int\<close> around them changes
  nothing. The floored counts are at least 1, so \<open>kpdf\<close> is zero only where the volume
  is. \<open>kpdc\<close> is zero as soon as one ceiled count is; the volume is a numpy float, so
  \<open>errorc\<close> is then an infinity or a NaN, not an exception, and \<open>errorc < errorf\<close> is
  false: the floored counts are returned.
\<close>

definition kgrid_from_cell_volume :: "(real \<Rightarrow> real) \<Rightarrow> atoms \<Rightarrow> real \<Rightarrow> int list option" where
  "kgrid_from_cell_volume pw atoms kpoint_density =
     (let kpd = kpoint_density;
          lengths_angles = get_cell_lengths_and_angles atoms;
          lengths = take 3 lengths_angles
      in if \<not> stays_real lengths (get_volume atoms) kpd then None
      else
        let ngrid = kpd / get_volume atoms;
            mult = pw (ngrid * lengths ! 0 * lengths ! 1 * lengths ! 2);
            num_divf = map (\<lambda>l. \<lfloor>max (mult / l) 1\<rfloor>) lengths;
            kpdf = get_volume atoms * of_int (num_divf ! 0) * of_int (num_divf ! 1)
                     * of_int (num_divf ! 2);
            errorf = \<bar>kpd - kpdf\<bar> / kpdf;
            num_divc = map (\<lambda>l. \<lceil>mult / l\<rceil>) lengths;
            kpdc = get_volume atoms * of_int (num_divc ! 0) * of_int (num_divc ! 1)
                     * of_int (num_divc ! 2);
            errorc = \<bar>kpd - kpdc\<bar> / kpdc;
            num_div = (if kpdc \<noteq> 0 \<and> errorc < errorf then num_divc else num_divf)
        in Some num_div)"

subsection \<open>kgrid\_from\_cell\_volume (job\_control.py, lines 199 to 224)\<close>

definition jc_kgrid_from_cell_volume :: "(real \<Rightarrow> real) \<Rightarrow> atoms \<Rightarrow> real \<Rightarrow> int list option" where
  "jc_kgrid_from_cell_volume pw atoms kpoint_density =
     (let kpd = kpoint_density;
          lengths_angles = get_cell_lengths_and_angles atoms;
          lengths = take 3 lengths_angles
      in if \<not> stays_real lengths (get_volume atoms) kpd then None
      else
        let ngrid = kpd / get_volume atoms;
            mult = pw (ngrid * lengths ! 0 * lengths ! 1 * lengths ! 2);
            num_divf = map (\<lambda>l. \<lfloor>max (mult / l) 1\<rfloor>) lengths;
            kpdf = get_volume atoms * of_int (num_divf ! 0) * of_int (num_divf ! 1)
                     * of_int (num_divf ! 2);
            errorf = \<bar>kpd - kpdf\<bar> / kpdf;
            num_divc = map (\<lambda>l. \<lceil>mult / l\<rceil>) lengths;
            kpdc = get_volume atoms * of_int (num_divc ! 0) * of_int (num_divc ! 1)
                     * of_int (num_divc ! 2);
            errorc = \<bar>kpd - kpdc\<bar> / kpdc;
            num_div = (if kpdc \<noteq> 0 \<and> errorc < errorf then num_divc else num_divf)
        in Some num_div)"

section \<open>Notions for the statements\<close>

text \<open>
  The inputs the specification calls valid: strictly positive cell lengths, volume and
  target density. The step is 2 or 1 by construction, from the flag \<open>only_even\<close>.
\<close>

definition valid_input :: "atoms \<Rightarrow> real \<Rightarrow> bool" where
  "valid_input atoms kpd \<longleftrightarrow>
     0 < cell_a atoms \<and> 0 < cell_b atoms \<and> 0 < cell_c atoms \<and>
     0 < cell_volume atoms \<and> 0 < kpd"

definition step_of :: "bool \<Rightarrow> int" where
  "step_of only_even = (if only_even then 2 else 1)"

text \<open>
  The intermediate quantities of \<open>get_kpts_from_kpd\<close>, one axis at a time: the
  multiplier, the fractional count \<open>nkpt_frac[i]\<close>, the floored count \<open>nkpt[i]\<close> as it is
  before any increment, and \<open>delta_ceil[i]\<close>. The argument \<open>l\<close> is the axis length.
  Then the arrays \<open>nkpt_frac\<close>, \<open>nkpt\<close>, \<open>delta_ceil\<close> and \<open>check_order\<close> themselves.
\<close>

definition mult_of :: "(real \<Rightarrow> real) \<Rightarrow> atoms \<Rightarrow> real \<Rightarrow> real" where
  "mult_of pw atoms kpd =
     pw (kpd / get_volume atoms * cell_a atoms * cell_b atoms * cell_c atoms)"

definition frac_count :: "(real \<Rightarrow> real) \<Rightarrow> atoms \<Rightarrow> real \<Rightarrow> bool \<Rightarrow> real \<Rightarrow> real" where
  "frac_count pw atoms kpd only_even l =
     max (mult_of pw atoms kpd / l) (of_int (step_of only_even))"

definition floor_count :: "(real \<Rightarrow> real) \<Rightarrow> atoms \<Rightarrow> real \<Rightarrow> bool \<Rightarrow> real \<Rightarrow> int" where
  "floor_count pw atoms kpd only_even l =
     \<lfloor>frac_count pw atoms kpd only_even l / of_int (step_of only_even)\<rfloor> * step_of only_even"

definition delta_of :: "(real \<Rightarrow> real) \<Rightarrow> atoms \<Rightarrow> real \<Rightarrow> bool \<Rightarrow> real \<Rightarrow> real" where
  "delta_of pw atoms kpd only_even l =
     of_int \<lceil>frac_count pw atoms kpd only_even l / of_int (step_of only_even)\<rceil>
       * of_int (step_of only_even) - frac_count pw atoms kpd only_even l"

definition nkpt_frac_of :: "(real \<Rightarrow> real) \<Rightarrow> atoms \<Rightarrow> real \<Rightarrow> bool \<Rightarrow> real list" where
  "nkpt_frac_of pw atoms kpd only_even =
     map (frac_count pw atoms kpd only_even) [cell_a atoms, cell_b atoms, cell_c atoms]"

definition nkpt_of :: "(real \<Rightarrow> real) \<Rightarrow> atoms \<Rightarrow> real \<Rightarrow> bool \<Rightarrow> real list" where
  "nkpt_of pw atoms kpd only_even =
     map (\<lambda>l. of_int (floor_count pw atoms kpd only_even l))
       [cell_a atoms, cell_b atoms, cell_c atoms]"

definition delta_ceil_of :: "(real \<Rightarrow> real) \<Rightarrow> atoms \<Rightarrow> real \<Rightarrow> bool \<Rightarrow> real list" where
  "delta_ceil_of pw atoms kpd only_even =
     map (delta_of pw atoms kpd only_even) [cell_a atoms, cell_b atoms, cell_c atoms]"

definition check_order_of :: "(real \<Rightarrow> real) \<Rightarrow> atoms \<Rightarrow> real \<Rightarrow> bool \<Rightarrow> nat list" where
  "check_order_of pw atoms kpd only_even = argsort (delta_ceil_of pw atoms kpd only_even)"

text \<open>The floored counts as integers, the grid before any increment.\<close>

definition floor_grid :: "(real \<Rightarrow> real) \<Rightarrow> atoms \<Rightarrow> real \<Rightarrow> bool \<Rightarrow> int list" where
  "floor_grid pw atoms kpd only_even =
     map (floor_count pw atoms kpd only_even) [cell_a atoms, cell_b atoms, cell_c atoms]"

text \<open>Lines 37 to 65 together, started on the density of the grid it is given.\<close>

definition repair ::
  "real \<Rightarrow> real \<Rightarrow> real \<Rightarrow> real list \<Rightarrow> nat list \<Rightarrow> real list \<Rightarrow> real list \<times> real" where
  "repair vol kpd step fr co nkpt =
     (case repair_pass vol kpd step fr co nkpt (density vol nkpt) of
        (n, a, i) \<Rightarrow> bump_loop vol kpd step co n a i)"

text \<open>
  What every run of the search keeps: three counts, each the one it started from or
  that plus one step, with the density of the result; and the target is met unless all
  three axes were incremented.
\<close>

definition bumped :: "real \<Rightarrow> real \<Rightarrow> real \<Rightarrow> real list \<Rightarrow> real list \<times> real \<Rightarrow> bool" where
  "bumped vol kpd step nkpt ra \<longleftrightarrow>
     (case ra of (r, a) \<Rightarrow>
        length r = 3 \<and> a = density vol r \<and>
        (r ! 0 = nkpt ! 0 \<or> r ! 0 = nkpt ! 0 + step) \<and>
        (r ! 1 = nkpt ! 1 \<or> r ! 1 = nkpt ! 1 + step) \<and>
        (r ! 2 = nkpt ! 2 \<or> r ! 2 = nkpt ! 2 + step) \<and>
        (kpd \<le> a \<or> r = [nkpt ! 0 + step, nkpt ! 1 + step, nkpt ! 2 + step]))"

text \<open>
  The two whole-grid candidates of \<open>kgrid_from_cell_volume\<close> and the relative error of a
  candidate as the routine computes it: every axis floored (never below 1), every axis
  ceiled, and the distance of the candidate's density from the target, relative to the
  candidate's density (\<open>errorf\<close>, \<open>errorc\<close>).
\<close>

definition all_floor :: "(real \<Rightarrow> real) \<Rightarrow> atoms \<Rightarrow> real \<Rightarrow> int list" where
  "all_floor pw atoms kpd =
     [\<lfloor>max (mult_of pw atoms kpd / cell_a atoms) 1\<rfloor>,
      \<lfloor>max (mult_of pw atoms kpd / cell_b atoms) 1\<rfloor>,
      \<lfloor>max (mult_of pw atoms kpd / cell_c atoms) 1\<rfloor>]"

definition all_ceil :: "(real \<Rightarrow> real) \<Rightarrow> atoms \<Rightarrow> real \<Rightarrow> int list" where
  "all_ceil pw atoms kpd =
     [\<lceil>mult_of pw atoms kpd / cell_a atoms\<rceil>,
      \<lceil>mult_of pw atoms kpd / cell_b atoms\<rceil>,
      \<lceil>mult_of pw atoms kpd / cell_c atoms\<rceil>]"

definition grid_density :: "atoms \<Rightarrow> int list \<Rightarrow> real" where
  "grid_density atoms g =
     cell_volume atoms * of_int (g ! 0) * of_int (g ! 1) * of_int (g ! 2)"

definition candidate_relative_error :: "atoms \<Rightarrow> real \<Rightarrow> int list \<Rightarrow> real" where
  "candidate_relative_error atoms kpd g =
     \<bar>kpd - grid_density atoms g\<bar> / grid_density atoms g"

text \<open>
  The relative error of a candidate versus the target in the usual sense, the distance
  from the target relative to the target. The routine does not compute it; its comment
  on \<open>errorf\<close> says that dividing by the candidate's density is meant.
\<close>

definition target_relative_error :: "atoms \<Rightarrow> real \<Rightarrow> int list \<Rightarrow> real" where
  "target_relative_error atoms kpd g = \<bar>grid_density atoms g - kpd\<bar> / kpd"

text \<open>
  The third branch of the repair pass in the words of the specification, for a
  ranking \<open>co\<close>, floored counts \<open>fl\<close> and a returned grid \<open>g\<close>: the nearest-ranked
  axis is incremented by the step; if the density is then still below the target, the
  other two axes are incremented as well, and otherwise they keep their floored
  counts.
\<close>

definition third_branch_grid :: "real \<Rightarrow> real \<Rightarrow> int \<Rightarrow> nat list \<Rightarrow> int list \<Rightarrow> int list \<Rightarrow> bool" where
  "third_branch_grid vol kpd s co fl g \<longleftrightarrow>
     length g = 3 \<and>
     g ! (co ! 0) = fl ! (co ! 0) + s \<and>
     (if vol * of_int (fl[co ! 0 := fl ! (co ! 0) + s] ! 0)
             * of_int (fl[co ! 0 := fl ! (co ! 0) + s] ! 1)
             * of_int (fl[co ! 0 := fl ! (co ! 0) + s] ! 2) < kpd
      then g ! (co ! 1) = fl ! (co ! 1) + s \<and> g ! (co ! 2) = fl ! (co ! 2) + s
      else g ! (co ! 1) = fl ! (co ! 1) \<and> g ! (co ! 2) = fl ! (co ! 2))"

text \<open>
  An orthorhombic cell with edges \<open>a\<close>, \<open>b\<close>, \<open>c\<close>: right angles, volume \<open>a * b * c\<close>,
  reciprocal cell \<open>diag (1/a, 1/b, 1/c)\<close>. The concrete inputs below are such cells.
\<close>

definition orthorhombic :: "real \<Rightarrow> real \<Rightarrow> real \<Rightarrow> atoms" where
  "orthorhombic a b c =
     \<lparr>rcell_0 = (1 / a, 0, 0), rcell_1 = (0, 1 / b, 0), rcell_2 = (0, 0, 1 / c),
      cell_a = a, cell_b = b, cell_c = c,
      cell_alpha = 90, cell_beta = 90, cell_gamma = 90,
      cell_volume = a * b * c\<rparr>"

section \<open>The search of lines 37 to 65\<close>

lemma argsort3_cases:
  "argsort [x, y, z] \<in> {[0, 1, 2], [0, 2, 1], [1, 0, 2], [1, 2, 0], [2, 0, 1], [2, 1, 0]}"
  by (simp add: argsort_def upt_rec)

lemma bump_loop_3: "bump_loop vol kpd step co nkpt a 3 = (nkpt, a)"
  by (simp add: bump_loop.simps)

lemma bump_loop_2:
  "bump_loop vol kpd step co nkpt a 2 =
     (if a < kpd then (incr nkpt (co ! 2) step, density vol (incr nkpt (co ! 2) step)) else (nkpt, a))"
  by (subst bump_loop.simps) (simp add: bump_loop_3 Let_def)

lemma bump_loop_1:
  "bump_loop vol kpd step co nkpt a (Suc 0) =
     (if a < kpd then bump_loop vol kpd step co (incr nkpt (co ! Suc 0) step) (density vol (incr nkpt (co ! Suc 0) step)) 2 else (nkpt, a))"
  by (subst bump_loop.simps) (simp add: Let_def numeral_2_eq_2)

lemma bump_loop_0:
  "bump_loop vol kpd step co nkpt a 0 =
     (if a < kpd then bump_loop vol kpd step co (incr nkpt (co ! 0) step) (density vol (incr nkpt (co ! 0) step)) (Suc 0) else (nkpt, a))"
  by (subst bump_loop.simps) (simp add: Let_def)

lemmas unroll = repair_def repair_pass_def bump_loop_0 bump_loop_1 bump_loop_2 bump_loop_3
  incr_def density_def bumped_def Let_def

lemma repair_012: "bumped vol kpd step [n0, n1, n2] (repair vol kpd step fr [0, 1, 2] [n0, n1, n2])"
  by (simp add: unroll)

lemma repair_021: "bumped vol kpd step [n0, n1, n2] (repair vol kpd step fr [0, 2, 1] [n0, n1, n2])"
  by (simp add: unroll)

lemma repair_102: "bumped vol kpd step [n0, n1, n2] (repair vol kpd step fr [1, 0, 2] [n0, n1, n2])"
  by (simp add: unroll)

lemma repair_120: "bumped vol kpd step [n0, n1, n2] (repair vol kpd step fr [1, 2, 0] [n0, n1, n2])"
  by (simp add: unroll)

lemma repair_201: "bumped vol kpd step [n0, n1, n2] (repair vol kpd step fr [2, 0, 1] [n0, n1, n2])"
  by (simp add: unroll)

lemma repair_210: "bumped vol kpd step [n0, n1, n2] (repair vol kpd step fr [2, 1, 0] [n0, n1, n2])"
  by (simp add: unroll)

lemma repair_bumped:
  "bumped vol kpd step [n0, n1, n2] (repair vol kpd step fr (argsort [x, y, z]) [n0, n1, n2])"
  using argsort3_cases [of x y z] repair_012 repair_021 repair_102 repair_120 repair_201 repair_210
  by (elim insertE emptyE) simp_all

section \<open>The copies of the search\<close>

lemma safe_repair_pass_eq:
  "safe_repair_pass vol kpd fr co nkpt a = repair_pass vol kpd 1 fr co nkpt a"
  by (simp add: safe_repair_pass_def repair_pass_def incr_def density_def Let_def)

lemma jc_safe_repair_pass_eq:
  "jc_safe_repair_pass vol kpd fr co nkpt a = repair_pass vol kpd 1 fr co nkpt a"
  by (simp add: jc_safe_repair_pass_def repair_pass_def incr_def density_def Let_def)

lemma bump_loop_step:
  assumes "a < kpd \<and> i \<le> 2"
  shows "bump_loop vol kpd 1 co nkpt a i =
     bump_loop vol kpd 1 co (nkpt[co ! i := nkpt ! (co ! i) + 1])
       (vol * nkpt[co ! i := nkpt ! (co ! i) + 1] ! 0 * nkpt[co ! i := nkpt ! (co ! i) + 1] ! 1
          * nkpt[co ! i := nkpt ! (co ! i) + 1] ! 2) (i + 1)"
  using assms by (subst bump_loop.simps) (simp add: Let_def incr_def density_def)

lemma bump_loop_stop:
  assumes "\<not> (a < kpd \<and> i \<le> 2)"
  shows "bump_loop vol kpd step co nkpt a i = (nkpt, a)"
  using assms by (subst bump_loop.simps) auto

lemma safe_bump_loop_eq:
  "safe_bump_loop vol kpd co nkpt a i = bump_loop vol kpd 1 co nkpt a i"
proof (induction vol kpd co nkpt a i rule: safe_bump_loop.induct)
  case (1 vol kpd co nkpt a i)
  show ?case
  proof (cases "a < kpd \<and> i \<le> 2")
    case True
    have "safe_bump_loop vol kpd co nkpt a i =
        safe_bump_loop vol kpd co (nkpt[co ! i := nkpt ! (co ! i) + 1])
          (vol * nkpt[co ! i := nkpt ! (co ! i) + 1] ! 0 * nkpt[co ! i := nkpt ! (co ! i) + 1] ! 1
             * nkpt[co ! i := nkpt ! (co ! i) + 1] ! 2) (i + 1)"
      using True by (subst safe_bump_loop.simps) (simp add: Let_def)
    also have "\<dots> = bump_loop vol kpd 1 co (nkpt[co ! i := nkpt ! (co ! i) + 1])
          (vol * nkpt[co ! i := nkpt ! (co ! i) + 1] ! 0 * nkpt[co ! i := nkpt ! (co ! i) + 1] ! 1
             * nkpt[co ! i := nkpt ! (co ! i) + 1] ! 2) (i + 1)"
      by (rule 1 [OF True refl])
    also have "\<dots> = bump_loop vol kpd 1 co nkpt a i"
      by (rule bump_loop_step [OF True, symmetric])
    finally show ?thesis .
  next
    case False
    then show ?thesis
      by (subst safe_bump_loop.simps) (auto simp: bump_loop_stop)
  qed
qed

lemma jc_safe_bump_loop_eq:
  "jc_safe_bump_loop vol kpd co nkpt a i = bump_loop vol kpd 1 co nkpt a i"
proof (induction vol kpd co nkpt a i rule: jc_safe_bump_loop.induct)
  case (1 vol kpd co nkpt a i)
  show ?case
  proof (cases "a < kpd \<and> i \<le> 2")
    case True
    have "jc_safe_bump_loop vol kpd co nkpt a i =
        jc_safe_bump_loop vol kpd co (nkpt[co ! i := nkpt ! (co ! i) + 1])
          (vol * nkpt[co ! i := nkpt ! (co ! i) + 1] ! 0 * nkpt[co ! i := nkpt ! (co ! i) + 1] ! 1
             * nkpt[co ! i := nkpt ! (co ! i) + 1] ! 2) (i + 1)"
      using True by (subst jc_safe_bump_loop.simps) (simp add: Let_def)
    also have "\<dots> = bump_loop vol kpd 1 co (nkpt[co ! i := nkpt ! (co ! i) + 1])
          (vol * nkpt[co ! i := nkpt ! (co ! i) + 1] ! 0 * nkpt[co ! i := nkpt ! (co ! i) + 1] ! 1
             * nkpt[co ! i := nkpt ! (co ! i) + 1] ! 2) (i + 1)"
      by (rule 1 [OF True refl])
    also have "\<dots> = bump_loop vol kpd 1 co nkpt a i"
      by (rule bump_loop_step [OF True, symmetric])
    finally show ?thesis .
  next
    case False
    then show ?thesis
      by (subst jc_safe_bump_loop.simps) (auto simp: bump_loop_stop)
  qed
qed

section \<open>The main routine\<close>

lemma valid_stays_real:
  assumes "valid_input atoms kpd"
  shows "stays_real (take 3 (get_cell_lengths_and_angles atoms)) (get_volume atoms) kpd"
  using assms
  by (simp add: valid_input_def stays_real_def get_cell_lengths_and_angles_def get_volume_def)

lemma get_kpts_eq:
  assumes "stays_real (take 3 (get_cell_lengths_and_angles atoms)) (get_volume atoms) kpd"
  shows "fst (get_kpts_from_kpd pw atoms kpd only_even show_kpts out) =
     Some (map (\<lambda>i. py_int (fst (repair (get_volume atoms) kpd (of_int (step_of only_even))
               (map (frac_count pw atoms kpd only_even) [cell_a atoms, cell_b atoms, cell_c atoms])
               (argsort (map (delta_of pw atoms kpd only_even) [cell_a atoms, cell_b atoms, cell_c atoms]))
               (map (\<lambda>l. of_int (floor_count pw atoms kpd only_even l)) [cell_a atoms, cell_b atoms, cell_c atoms])) ! i)) [0..<3])"
  using assms
  by (simp add: get_kpts_from_kpd_def Let_def repair_def frac_count_def floor_count_def delta_of_def
      mult_of_def step_of_def get_cell_lengths_and_angles_def split: prod.splits)

lemma py_int_of_int: "py_int (of_int k) = k"
  by (simp add: py_int_def)

lemma py_int_of_int_add: "py_int (of_int k + of_int j) = k + j"
  using py_int_of_int [of "k + j"] by simp

lemma upt3: "[0..<3] = [0, 1, 2]"
  by (simp add: upt_rec)

lemma step_of_pos: "0 < step_of only_even"
  by (simp add: step_of_def)

lemma frac_count_ge: "mult_of pw atoms kpd / l \<le> frac_count pw atoms kpd only_even l"
  by (simp add: frac_count_def)

lemma frac_count_ge_step: "of_int (step_of only_even) \<le> frac_count pw atoms kpd only_even l"
  by (simp add: frac_count_def)

lemma step_of_real_pos: "0 < (of_int (step_of only_even) :: real)"
  by (simp add: step_of_def)

lemma floor_count_le: "of_int (floor_count pw atoms kpd only_even l) \<le> frac_count pw atoms kpd only_even l"
proof -
  have "of_int \<lfloor>frac_count pw atoms kpd only_even l / of_int (step_of only_even)\<rfloor>
          \<le> frac_count pw atoms kpd only_even l / of_int (step_of only_even)"
    by (rule of_int_floor_le)
  then have "of_int \<lfloor>frac_count pw atoms kpd only_even l / of_int (step_of only_even)\<rfloor>
          * of_int (step_of only_even) \<le> frac_count pw atoms kpd only_even l"
    by (simp only: pos_le_divide_eq [OF step_of_real_pos])
  then show ?thesis
    by (simp add: floor_count_def)
qed

lemma floor_count_bump_ge:
  "frac_count pw atoms kpd only_even l \<le> of_int (floor_count pw atoms kpd only_even l + step_of only_even)"
proof -
  have "frac_count pw atoms kpd only_even l / of_int (step_of only_even)
          \<le> of_int \<lfloor>frac_count pw atoms kpd only_even l / of_int (step_of only_even)\<rfloor> + 1"
    by linarith
  then have "frac_count pw atoms kpd only_even l
          \<le> (of_int \<lfloor>frac_count pw atoms kpd only_even l / of_int (step_of only_even)\<rfloor> + 1) * of_int (step_of only_even)"
    by (simp only: pos_divide_le_eq [OF step_of_real_pos])
  then show ?thesis
    by (simp add: floor_count_def algebra_simps)
qed

lemma floor_count_ge_step: "step_of only_even \<le> floor_count pw atoms kpd only_even l"
proof -
  have "1 \<le> frac_count pw atoms kpd only_even l / of_int (step_of only_even)"
    using frac_count_ge_step [of only_even pw atoms kpd l]
    by (simp only: pos_le_divide_eq [OF step_of_real_pos] mult_1)
  then have "1 \<le> \<lfloor>frac_count pw atoms kpd only_even l / of_int (step_of only_even)\<rfloor>"
    by linarith
  then have "1 * step_of only_even \<le> \<lfloor>frac_count pw atoms kpd only_even l / of_int (step_of only_even)\<rfloor> * step_of only_even"
    using step_of_pos [of only_even] by (intro mult_right_mono) simp_all
  then show ?thesis by (simp add: floor_count_def)
qed

lemma floor_count_dvd: "step_of only_even dvd floor_count pw atoms kpd only_even l"
  by (simp add: floor_count_def)

lemma get_kpts_eq_repair:
  assumes "stays_real (take 3 (get_cell_lengths_and_angles atoms)) (get_volume atoms) kpd"
  shows "fst (get_kpts_from_kpd pw atoms kpd only_even show_kpts out) =
     Some (map (\<lambda>i. py_int (fst (repair (get_volume atoms) kpd (of_int (step_of only_even))
               (nkpt_frac_of pw atoms kpd only_even) (check_order_of pw atoms kpd only_even)
               (nkpt_of pw atoms kpd only_even)) ! i)) [0..<3])"
  using get_kpts_eq [OF assms, of pw only_even show_kpts out]
  by (simp only: nkpt_frac_of_def check_order_of_def delta_ceil_of_def nkpt_of_def)

lemma repair_met:
  assumes "kpd \<le> density vol nkpt"
  shows "repair vol kpd step fr co nkpt = (nkpt, density vol nkpt)"
  using assms by (simp add: repair_def repair_pass_def bump_loop_0)

lemma repair_branch3:
  assumes "density vol nkpt < kpd"
    and "\<not> isclose (fr ! (co ! 0)) (fr ! (co ! 1))"
    and "isclose (fr ! (co ! 1)) (fr ! (co ! 2))"
  shows "fst (repair vol kpd step fr co nkpt) =
     (if density vol (incr nkpt (co ! 0) step) < kpd
      then incr (incr (incr nkpt (co ! 0) step) (co ! 1) step) (co ! 2) step
      else incr nkpt (co ! 0) step)"
  using assms by (simp add: repair_def repair_pass_def bump_loop_3 Let_def)

lemma mult_of_pos:
  assumes "valid_input atoms kpd"
    and "kpd / cell_volume atoms * cell_a atoms * cell_b atoms * cell_c atoms
           \<le> mult_of pw atoms kpd ^ 3"
  shows "0 < mult_of pw atoms kpd"
proof (rule ccontr)
  assume "\<not> 0 < mult_of pw atoms kpd"
  then have m: "mult_of pw atoms kpd \<le> 0" by simp
  have "mult_of pw atoms kpd ^ 3 = mult_of pw atoms kpd * mult_of pw atoms kpd * mult_of pw atoms kpd"
    by (simp add: power3_eq_cube)
  moreover have "mult_of pw atoms kpd * mult_of pw atoms kpd * mult_of pw atoms kpd \<le> 0"
    using m by (intro mult_nonneg_nonpos) simp_all
  moreover have "0 < kpd / cell_volume atoms * cell_a atoms * cell_b atoms * cell_c atoms"
    using assms(1) by (simp add: valid_input_def)
  ultimately show False using assms(2) by linarith
qed

lemma all_bumped_meets:
  assumes "valid_input atoms kpd"
    and "kpd / cell_volume atoms * cell_a atoms * cell_b atoms * cell_c atoms
           \<le> mult_of pw atoms kpd ^ 3"
  shows "kpd \<le> cell_volume atoms
           * of_int (floor_count pw atoms kpd only_even (cell_a atoms) + step_of only_even)
           * of_int (floor_count pw atoms kpd only_even (cell_b atoms) + step_of only_even)
           * of_int (floor_count pw atoms kpd only_even (cell_c atoms) + step_of only_even)"
proof -
  define m where "m = mult_of pw atoms kpd"
  define a where "a = cell_a atoms"
  define b where "b = cell_b atoms"
  define c where "c = cell_c atoms"
  define v where "v = cell_volume atoms"
  define A :: real where "A = of_int (floor_count pw atoms kpd only_even a + step_of only_even)"
  define B :: real where "B = of_int (floor_count pw atoms kpd only_even b + step_of only_even)"
  define C :: real where "C = of_int (floor_count pw atoms kpd only_even c + step_of only_even)"
  have pos: "0 < a" "0 < b" "0 < c" "0 < v" "0 < kpd"
    using assms(1) by (simp_all add: valid_input_def a_def b_def c_def v_def)
  have m3: "kpd / v * a * b * c \<le> m ^ 3"
    using assms(2) by (simp add: m_def a_def b_def c_def v_def)
  have mpos: "0 < m"
    using mult_of_pos [OF assms] by (simp add: m_def)
  have A: "m / a \<le> A" and B: "m / b \<le> B" and C: "m / c \<le> C"
    using frac_count_ge floor_count_bump_ge unfolding A_def B_def C_def m_def
    by (meson order_trans)+
  have q: "0 \<le> m / a" "0 \<le> m / b" "0 \<le> m / c"
    using pos mpos by simp_all
  have AB: "(m / a) * (m / b) \<le> A * B"
    using A B q by (intro mult_mono) simp_all
  have "0 \<le> A" "0 \<le> B" using A B q by linarith+
  then have nn: "0 \<le> A * B" by simp
  have ABC: "(m / a) * (m / b) * (m / c) \<le> A * B * C"
    by (rule mult_mono [OF AB C nn q(3)])
  have "(m / a) * (m / b) * (m / c) = m ^ 3 / (a * b * c)"
    by (simp add: power3_eq_cube)
  moreover have "kpd / v * a * b * c / (a * b * c) \<le> m ^ 3 / (a * b * c)"
    using m3 pos by (intro divide_right_mono) simp_all
  moreover have "kpd / v * a * b * c / (a * b * c) = kpd / v"
    using pos by simp
  ultimately have "kpd / v \<le> A * B * C"
    using ABC by linarith
  then have "kpd \<le> v * (A * B * C)"
    using pos by (simp add: pos_divide_le_eq mult.commute)
  then show ?thesis
    by (simp add: A_def B_def C_def a_def b_def c_def v_def mult.assoc)
qed

lemma get_kpts_shape:
  assumes "valid_input atoms kpd"
  shows "\<exists>nx ny nz.
     fst (get_kpts_from_kpd pw atoms kpd only_even show_kpts out) = Some [nx, ny, nz] \<and>
     (nx = floor_count pw atoms kpd only_even (cell_a atoms) \<or>
      nx = floor_count pw atoms kpd only_even (cell_a atoms) + step_of only_even) \<and>
     (ny = floor_count pw atoms kpd only_even (cell_b atoms) \<or>
      ny = floor_count pw atoms kpd only_even (cell_b atoms) + step_of only_even) \<and>
     (nz = floor_count pw atoms kpd only_even (cell_c atoms) \<or>
      nz = floor_count pw atoms kpd only_even (cell_c atoms) + step_of only_even) \<and>
     (kpd \<le> cell_volume atoms * of_int nx * of_int ny * of_int nz \<or>
      nx = floor_count pw atoms kpd only_even (cell_a atoms) + step_of only_even \<and>
      ny = floor_count pw atoms kpd only_even (cell_b atoms) + step_of only_even \<and>
      nz = floor_count pw atoms kpd only_even (cell_c atoms) + step_of only_even)"
proof -
  define s :: real where "s = of_int (step_of only_even)"
  define fa where "fa = floor_count pw atoms kpd only_even (cell_a atoms)"
  define fb where "fb = floor_count pw atoms kpd only_even (cell_b atoms)"
  define fc where "fc = floor_count pw atoms kpd only_even (cell_c atoms)"
  define ra where "ra = repair (get_volume atoms) kpd s
               (map (frac_count pw atoms kpd only_even) [cell_a atoms, cell_b atoms, cell_c atoms])
               (argsort (map (delta_of pw atoms kpd only_even) [cell_a atoms, cell_b atoms, cell_c atoms]))
               [of_int fa, of_int fb, of_int fc]"
  obtain r a where ra: "ra = (r, a)" by (cases ra)
  have "bumped (get_volume atoms) kpd s [of_int fa, of_int fb, of_int fc] ra"
    unfolding ra_def using repair_bumped by simp
  then have b: "length r = 3" "a = cell_volume atoms * r ! 0 * r ! 1 * r ! 2"
      "r ! 0 = of_int fa \<or> r ! 0 = of_int fa + s"
      "r ! 1 = of_int fb \<or> r ! 1 = of_int fb + s"
      "r ! 2 = of_int fc \<or> r ! 2 = of_int fc + s"
      "kpd \<le> a \<or> r = [of_int fa + s, of_int fb + s, of_int fc + s]"
    by (auto simp: bumped_def ra density_def get_volume_def)
  have res: "fst (get_kpts_from_kpd pw atoms kpd only_even show_kpts out)
       = Some [py_int (r ! 0), py_int (r ! 1), py_int (r ! 2)]"
    using get_kpts_eq [OF valid_stays_real [OF assms], of pw only_even show_kpts out] ra
    by (simp add: upt3 ra_def s_def fa_def fb_def fc_def)
  have i0: "py_int (r ! 0) = fa \<or> py_int (r ! 0) = fa + step_of only_even"
    using b(3) py_int_of_int py_int_of_int_add by (auto simp: s_def)
  have i1: "py_int (r ! 1) = fb \<or> py_int (r ! 1) = fb + step_of only_even"
    using b(4) py_int_of_int py_int_of_int_add by (auto simp: s_def)
  have i2: "py_int (r ! 2) = fc \<or> py_int (r ! 2) = fc + step_of only_even"
    using b(5) py_int_of_int py_int_of_int_add by (auto simp: s_def)
  have r0: "of_int (py_int (r ! 0)) = r ! 0"
    using b(3) py_int_of_int py_int_of_int_add by (auto simp: s_def)
  have r1: "of_int (py_int (r ! 1)) = r ! 1"
    using b(4) py_int_of_int py_int_of_int_add by (auto simp: s_def)
  have r2: "of_int (py_int (r ! 2)) = r ! 2"
    using b(5) py_int_of_int py_int_of_int_add by (auto simp: s_def)
  have met: "kpd \<le> cell_volume atoms * of_int (py_int (r ! 0)) * of_int (py_int (r ! 1))
                  * of_int (py_int (r ! 2)) \<or>
             py_int (r ! 0) = fa + step_of only_even \<and> py_int (r ! 1) = fb + step_of only_even \<and>
             py_int (r ! 2) = fc + step_of only_even"
  proof (rule disjE [OF b(6)])
    assume "kpd \<le> a"
    then show ?thesis by (simp only: r0 r1 r2 b(2)) simp
  next
    assume all: "r = [of_int fa + s, of_int fb + s, of_int fc + s]"
    have "py_int (r ! 0) = fa + step_of only_even" "py_int (r ! 1) = fb + step_of only_even"
      "py_int (r ! 2) = fc + step_of only_even"
      using py_int_of_int_add by (simp_all add: all s_def)
    then show ?thesis by simp
  qed
  show ?thesis
    using res i0 i1 i2 met unfolding fa_def fb_def fc_def by blast
qed

lemma get_kpts_meets_density_if_root_not_low:
  assumes "valid_input atoms kpd"
    and "kpd / cell_volume atoms * cell_a atoms * cell_b atoms * cell_c atoms
           \<le> mult_of pw atoms kpd ^ 3"
  shows "\<exists>nx ny nz.
     fst (get_kpts_from_kpd pw atoms kpd only_even show_kpts out) = Some [nx, ny, nz] \<and>
     kpd \<le> get_volume atoms * of_int nx * of_int ny * of_int nz"
proof -
  obtain nx ny nz where
    r: "fst (get_kpts_from_kpd pw atoms kpd only_even show_kpts out) = Some [nx, ny, nz]"
    and d: "kpd \<le> cell_volume atoms * of_int nx * of_int ny * of_int nz \<or>
      nx = floor_count pw atoms kpd only_even (cell_a atoms) + step_of only_even \<and>
      ny = floor_count pw atoms kpd only_even (cell_b atoms) + step_of only_even \<and>
      nz = floor_count pw atoms kpd only_even (cell_c atoms) + step_of only_even"
    using get_kpts_shape [OF assms(1), of pw only_even show_kpts out] by blast
  have "kpd \<le> cell_volume atoms * of_int nx * of_int ny * of_int nz"
    using d all_bumped_meets [OF assms, of only_even] by blast
  then show ?thesis
    using r by (auto simp: get_volume_def)
qed

lemma mult_of_mono:
  assumes "valid_input atoms kpd1" "kpd1 \<le> kpd2" "mono_on {0..} pw"
  shows "mult_of pw atoms kpd1 \<le> mult_of pw atoms kpd2"
proof -
  have pos: "0 < cell_a atoms" "0 < cell_b atoms" "0 < cell_c atoms" "0 < cell_volume atoms"
    "0 < kpd1"
    using assms(1) by (simp_all add: valid_input_def)
  have h0: "kpd1 / cell_volume atoms \<le> kpd2 / cell_volume atoms"
    using assms(2) pos by (simp add: divide_right_mono)
  have h1: "kpd1 / cell_volume atoms * cell_a atoms \<le> kpd2 / cell_volume atoms * cell_a atoms"
    using mult_right_mono [OF h0, of "cell_a atoms"] pos(1) by simp
  have h2: "kpd1 / cell_volume atoms * cell_a atoms * cell_b atoms
      \<le> kpd2 / cell_volume atoms * cell_a atoms * cell_b atoms"
    using mult_right_mono [OF h1, of "cell_b atoms"] pos(2) by simp
  have h3: "kpd1 / cell_volume atoms * cell_a atoms * cell_b atoms * cell_c atoms
      \<le> kpd2 / cell_volume atoms * cell_a atoms * cell_b atoms * cell_c atoms"
    using mult_right_mono [OF h2, of "cell_c atoms"] pos(3) by simp
  have p1: "0 \<le> kpd1 / cell_volume atoms * cell_a atoms * cell_b atoms * cell_c atoms"
    using pos by simp
  then have p2: "0 \<le> kpd2 / cell_volume atoms * cell_a atoms * cell_b atoms * cell_c atoms"
    using h3 by linarith
  show ?thesis
    unfolding mult_of_def get_volume_def
    using mono_onD [OF assms(3) _ _ h3] p1 p2 by simp
qed

lemma floor_count_mono:
  assumes "valid_input atoms kpd1" "kpd1 \<le> kpd2" "mono_on {0..} pw" "0 < l"
  shows "floor_count pw atoms kpd1 only_even l \<le> floor_count pw atoms kpd2 only_even l"
proof -
  have "mult_of pw atoms kpd1 / l \<le> mult_of pw atoms kpd2 / l"
    using mult_of_mono [OF assms(1,2,3)] assms(4) by (simp add: divide_right_mono)
  then have "frac_count pw atoms kpd1 only_even l \<le> frac_count pw atoms kpd2 only_even l"
    unfolding frac_count_def by (rule max.mono) simp
  then have "frac_count pw atoms kpd1 only_even l / of_int (step_of only_even)
      \<le> frac_count pw atoms kpd2 only_even l / of_int (step_of only_even)"
    using step_of_real_pos [of only_even] by (simp add: divide_right_mono)
  then have "\<lfloor>frac_count pw atoms kpd1 only_even l / of_int (step_of only_even)\<rfloor>
      \<le> \<lfloor>frac_count pw atoms kpd2 only_even l / of_int (step_of only_even)\<rfloor>"
    by (rule floor_mono)
  then show ?thesis
    unfolding floor_count_def using step_of_pos [of only_even] by (simp add: mult_right_mono)
qed

lemma root3_mono_on: "mono_on {0..} (root 3)"
  by (rule mono_onI) simp

lemma root3_not_low: "0 \<le> x \<Longrightarrow> x \<le> root 3 x ^ 3"
  by simp

section \<open>The branches of the search\<close>

lemma isclose_refl: "isclose x x"
  by (simp add: isclose_def)

lemma argsort_equal: "argsort [d, d, d] = [0, 1, 2]"
  by (simp add: argsort_def upt_rec)

lemma repair_cubic:
  "fst (repair vol kpd step [f, f, f] [0, 1, 2] [n, n, n]) =
     (if density vol [n, n, n] < kpd then [n + step, n + step, n + step] else [n, n, n])"
  by (simp add: unroll isclose_refl)

lemma argsort3_ranked:
  "[x, y, z] ! (argsort [x, y, z] ! 0) \<le> [x, y, z] ! (argsort [x, y, z] ! 1) \<and>
   [x, y, z] ! (argsort [x, y, z] ! 1) \<le> [x, y, z] ! (argsort [x, y, z] ! 2)"
  by (simp add: argsort_def upt_rec)

lemma argsort3_set: "set (argsort [x, y, z]) = {0, 1, 2}"
  using argsort3_cases [of x y z] by auto

lemma py_int_add_step: "py_int (real_of_int n + real_of_int s) = n + s"
  using py_int_of_int [of "n + s"] by simp

lemmas third = third_branch_grid_def repair_def repair_pass_def bump_loop_3 incr_def density_def
  Let_def upt3 py_int_of_int py_int_add_step

lemma third_012:
  assumes "density vol [of_int n0, of_int n1, of_int n2] < kpd"
    and "\<not> isclose (fr ! 0) (fr ! 1)" and "isclose (fr ! 1) (fr ! 2)"
  shows "third_branch_grid vol kpd s [0, 1, 2] [n0, n1, n2]
     (map (\<lambda>i. py_int (fst (repair vol kpd (of_int s) fr [0, 1, 2]
                               [of_int n0, of_int n1, of_int n2]) ! i)) [0..<3])"
  using assms by (simp add: third)

lemma third_021:
  assumes "density vol [of_int n0, of_int n1, of_int n2] < kpd"
    and "\<not> isclose (fr ! 0) (fr ! 2)" and "isclose (fr ! 2) (fr ! 1)"
  shows "third_branch_grid vol kpd s [0, 2, 1] [n0, n1, n2]
     (map (\<lambda>i. py_int (fst (repair vol kpd (of_int s) fr [0, 2, 1]
                               [of_int n0, of_int n1, of_int n2]) ! i)) [0..<3])"
  using assms by (simp add: third)

lemma third_102:
  assumes "density vol [of_int n0, of_int n1, of_int n2] < kpd"
    and "\<not> isclose (fr ! 1) (fr ! 0)" and "isclose (fr ! 0) (fr ! 2)"
  shows "third_branch_grid vol kpd s [1, 0, 2] [n0, n1, n2]
     (map (\<lambda>i. py_int (fst (repair vol kpd (of_int s) fr [1, 0, 2]
                               [of_int n0, of_int n1, of_int n2]) ! i)) [0..<3])"
  using assms by (simp add: third)

lemma third_120:
  assumes "density vol [of_int n0, of_int n1, of_int n2] < kpd"
    and "\<not> isclose (fr ! 1) (fr ! 2)" and "isclose (fr ! 2) (fr ! 0)"
  shows "third_branch_grid vol kpd s [1, 2, 0] [n0, n1, n2]
     (map (\<lambda>i. py_int (fst (repair vol kpd (of_int s) fr [1, 2, 0]
                               [of_int n0, of_int n1, of_int n2]) ! i)) [0..<3])"
  using assms by (simp add: third)

lemma third_201:
  assumes "density vol [of_int n0, of_int n1, of_int n2] < kpd"
    and "\<not> isclose (fr ! 2) (fr ! 0)" and "isclose (fr ! 0) (fr ! 1)"
  shows "third_branch_grid vol kpd s [2, 0, 1] [n0, n1, n2]
     (map (\<lambda>i. py_int (fst (repair vol kpd (of_int s) fr [2, 0, 1]
                               [of_int n0, of_int n1, of_int n2]) ! i)) [0..<3])"
  using assms by (simp add: third)

lemma third_210:
  assumes "density vol [of_int n0, of_int n1, of_int n2] < kpd"
    and "\<not> isclose (fr ! 2) (fr ! 1)" and "isclose (fr ! 1) (fr ! 0)"
  shows "third_branch_grid vol kpd s [2, 1, 0] [n0, n1, n2]
     (map (\<lambda>i. py_int (fst (repair vol kpd (of_int s) fr [2, 1, 0]
                               [of_int n0, of_int n1, of_int n2]) ! i)) [0..<3])"
  using assms by (simp add: third)

lemma third_branch:
  assumes "density vol [of_int n0, of_int n1, of_int n2] < kpd"
    and "\<not> isclose (fr ! (argsort [x, y, z] ! 0)) (fr ! (argsort [x, y, z] ! 1))"
    and "isclose (fr ! (argsort [x, y, z] ! 1)) (fr ! (argsort [x, y, z] ! 2))"
  shows "third_branch_grid vol kpd s (argsort [x, y, z]) [n0, n1, n2]
     (map (\<lambda>i. py_int (fst (repair vol kpd (of_int s) fr (argsort [x, y, z])
                               [of_int n0, of_int n1, of_int n2]) ! i)) [0..<3])"
  using argsort3_cases [of x y z] assms
    third_012 [of vol n0 n1 n2 kpd fr s] third_021 [of vol n0 n1 n2 kpd fr s]
    third_102 [of vol n0 n1 n2 kpd fr s] third_120 [of vol n0 n1 n2 kpd fr s]
    third_201 [of vol n0 n1 n2 kpd fr s] third_210 [of vol n0 n1 n2 kpd fr s]
  by (elim insertE emptyE) simp_all

lemma get_kpts_cubic:
  assumes "valid_input atoms kpd"
    and "cell_a atoms = cell_b atoms" and "cell_b atoms = cell_c atoms"
  shows "fst (get_kpts_from_kpd pw atoms kpd False show_kpts out) =
      (if cell_volume atoms * of_int (floor_count pw atoms kpd False (cell_a atoms))
            * of_int (floor_count pw atoms kpd False (cell_a atoms))
            * of_int (floor_count pw atoms kpd False (cell_a atoms)) < kpd
       then Some [floor_count pw atoms kpd False (cell_a atoms) + 1,
                  floor_count pw atoms kpd False (cell_a atoms) + 1,
                  floor_count pw atoms kpd False (cell_a atoms) + 1]
       else Some [floor_count pw atoms kpd False (cell_a atoms),
                  floor_count pw atoms kpd False (cell_a atoms),
                  floor_count pw atoms kpd False (cell_a atoms)])"
proof -
  define a where "a = cell_a atoms"
  define n where "n = floor_count pw atoms kpd False a"
  define f where "f = frac_count pw atoms kpd False a"
  have eq: "cell_b atoms = a" "cell_c atoms = a"
    using assms(2,3) by (simp_all add: a_def)
  have nk: "nkpt_of pw atoms kpd False = [of_int n, of_int n, of_int n]"
    by (simp add: nkpt_of_def eq n_def a_def)
  have fr: "nkpt_frac_of pw atoms kpd False = [f, f, f]"
    by (simp add: nkpt_frac_of_def eq f_def a_def)
  have co: "check_order_of pw atoms kpd False = [0, 1, 2]"
    by (simp add: check_order_of_def delta_ceil_of_def eq a_def [symmetric] argsort_equal)
  have res: "fst (get_kpts_from_kpd pw atoms kpd False show_kpts out) =
      Some (map (\<lambda>i. py_int ((if density (get_volume atoms) [of_int n, of_int n, of_int n] < kpd
                              then [of_int n + 1, of_int n + 1, of_int n + 1]
                              else [of_int n, of_int n, of_int n]) ! i)) [0..<3])"
    using get_kpts_eq_repair [OF valid_stays_real [OF assms(1)], of pw False show_kpts out]
    unfolding nk fr co repair_cubic by (simp add: step_of_def)
  have "fst (get_kpts_from_kpd pw atoms kpd False show_kpts out) =
      (if density (get_volume atoms) [of_int n, of_int n, of_int n] < kpd
       then Some [n + 1, n + 1, n + 1] else Some [n, n, n])"
    unfolding res using py_int_of_int [of n] py_int_of_int_add [of n 1] by (simp add: upt3)
  then show ?thesis
    by (simp add: density_def get_volume_def n_def a_def)
qed

lemma get_kpts_raises:
  assumes "\<not> stays_real (take 3 (get_cell_lengths_and_angles atoms)) (get_volume atoms) kpd"
  shows "get_kpts_from_kpd pw atoms kpd only_even show_kpts out = (None, out)"
  using assms by (simp add: get_kpts_from_kpd_def Let_def)

lemma negative_density_leaves_reals:
  assumes "0 < cell_a atoms" "0 < cell_b atoms" "0 < cell_c atoms" "0 < cell_volume atoms"
    and "kpd < 0"
  shows "\<not> stays_real (take 3 (get_cell_lengths_and_angles atoms)) (get_volume atoms) kpd"
proof -
  have h0: "kpd / cell_volume atoms < 0"
    by (rule divide_neg_pos [OF assms(5) assms(4)])
  have h1: "kpd / cell_volume atoms * cell_a atoms < 0"
    by (rule mult_neg_pos [OF h0 assms(1)])
  have h2: "kpd / cell_volume atoms * cell_a atoms * cell_b atoms < 0"
    by (rule mult_neg_pos [OF h1 assms(2)])
  have "kpd / cell_volume atoms * cell_a atoms * cell_b atoms * cell_c atoms < 0"
    by (rule mult_neg_pos [OF h2 assms(3)])
  then show ?thesis
    by (simp add: stays_real_def get_cell_lengths_and_angles_def get_volume_def)
qed

lemma zero_geometry_leaves_reals:
  assumes "cell_a atoms = 0 \<or> cell_b atoms = 0 \<or> cell_c atoms = 0 \<or> cell_volume atoms = 0"
  shows "\<not> stays_real (take 3 (get_cell_lengths_and_angles atoms)) (get_volume atoms) kpd"
  using assms by (auto simp: stays_real_def get_cell_lengths_and_angles_def get_volume_def)

lemma get_kpts_zero_density:
  assumes "0 < cell_a atoms" "0 < cell_b atoms" "0 < cell_c atoms" "0 < cell_volume atoms"
    and "pw 0 = 0"
  shows "fst (get_kpts_from_kpd pw atoms 0 only_even show_kpts out)
           = Some [step_of only_even, step_of only_even, step_of only_even]"
proof -
  have sr: "stays_real (take 3 (get_cell_lengths_and_angles atoms)) (get_volume atoms) 0"
    using assms by (simp add: stays_real_def get_cell_lengths_and_angles_def get_volume_def)
  have m: "mult_of pw atoms 0 = 0" by (simp add: mult_of_def assms(5))
  have fr: "frac_count pw atoms 0 only_even l = of_int (step_of only_even)" for l
    using step_of_real_pos [of only_even] by (simp add: frac_count_def m)
  have fl: "floor_count pw atoms 0 only_even l = step_of only_even" for l
    using step_of_real_pos [of only_even] by (simp add: floor_count_def fr)
  have nk: "nkpt_of pw atoms 0 only_even
      = [of_int (step_of only_even), of_int (step_of only_even), of_int (step_of only_even)]"
    by (simp add: nkpt_of_def fl)
  have "0 \<le> density (get_volume atoms) (nkpt_of pw atoms 0 only_even)"
    using assms(4) step_of_real_pos [of only_even] by (simp add: nk density_def get_volume_def)
  then have "repair (get_volume atoms) 0 (of_int (step_of only_even))
      (nkpt_frac_of pw atoms 0 only_even) (check_order_of pw atoms 0 only_even)
      (nkpt_of pw atoms 0 only_even)
      = (nkpt_of pw atoms 0 only_even, density (get_volume atoms) (nkpt_of pw atoms 0 only_even))"
    by (rule repair_met)
  then show ?thesis
    using get_kpts_eq_repair [OF sr, of pw only_even show_kpts out]
    by (simp add: nk upt3 py_int_of_int)
qed

lemma list3: "length g = 3 \<Longrightarrow> g = [g ! 0, g ! 1, g ! 2]"
  by (cases g; cases "tl g"; cases "tl (tl g)") auto

section \<open>The floor-or-ceiling routine on valid inputs\<close>

lemma all_ceil_density_pos:
  assumes "valid_input atoms kpd" and "0 < mult_of pw atoms kpd"
  shows "0 < grid_density atoms (all_ceil pw atoms kpd)"
proof -
  have pos: "0 < cell_a atoms" "0 < cell_b atoms" "0 < cell_c atoms" "0 < cell_volume atoms"
    using assms(1) by (simp_all add: valid_input_def)
  have c: "0 < \<lceil>mult_of pw atoms kpd / l\<rceil>" if "0 < l" for l
    using assms(2) that by (simp add: ceiling_less_iff)
  show ?thesis
    using pos c [OF pos(1)] c [OF pos(2)] c [OF pos(3)]
    by (simp add: grid_density_def all_ceil_def)
qed

lemma kgrid_from_cell_volume_eq:
  assumes "valid_input atoms kpd"
  shows "kgrid_from_cell_volume pw atoms kpd =
     Some (if grid_density atoms (all_ceil pw atoms kpd) \<noteq> 0 \<and>
              candidate_relative_error atoms kpd (all_ceil pw atoms kpd)
                < candidate_relative_error atoms kpd (all_floor pw atoms kpd)
           then all_ceil pw atoms kpd else all_floor pw atoms kpd)"
proof -
  have sr: "stays_real [cell_a atoms, cell_b atoms, cell_c atoms] (cell_volume atoms) kpd"
    using valid_stays_real [OF assms]
    by (simp add: get_cell_lengths_and_angles_def get_volume_def)
  have m: "pw (kpd / cell_volume atoms * cell_a atoms * cell_b atoms * cell_c atoms)
      = mult_of pw atoms kpd"
    by (simp add: mult_of_def get_volume_def)
  have fl: "map (\<lambda>l. \<lfloor>max (mult_of pw atoms kpd / l) 1\<rfloor>) [cell_a atoms, cell_b atoms, cell_c atoms]
      = all_floor pw atoms kpd"
    by (simp add: all_floor_def)
  have ce: "map (\<lambda>l. \<lceil>mult_of pw atoms kpd / l\<rceil>) [cell_a atoms, cell_b atoms, cell_c atoms]
      = all_ceil pw atoms kpd"
    by (simp add: all_ceil_def)
  have tk: "take 3 (get_cell_lengths_and_angles atoms) = [cell_a atoms, cell_b atoms, cell_c atoms]"
    by (simp add: get_cell_lengths_and_angles_def)
  have nth: "[cell_a atoms, cell_b atoms, cell_c atoms] ! 0 = cell_a atoms"
    "[cell_a atoms, cell_b atoms, cell_c atoms] ! 1 = cell_b atoms"
    "[cell_a atoms, cell_b atoms, cell_c atoms] ! 2 = cell_c atoms"
    by simp_all
  show ?thesis
    unfolding kgrid_from_cell_volume_def Let_def tk nth get_volume_def m fl ce
      grid_density_def [symmetric] candidate_relative_error_def [symmetric]
    using sr by (simp only: if_True if_False not_True_eq_False not_not)
qed

lemma jc_kgrid_from_cell_volume_eq:
  assumes "valid_input atoms kpd"
  shows "jc_kgrid_from_cell_volume pw atoms kpd =
     Some (if grid_density atoms (all_ceil pw atoms kpd) \<noteq> 0 \<and>
              candidate_relative_error atoms kpd (all_ceil pw atoms kpd)
                < candidate_relative_error atoms kpd (all_floor pw atoms kpd)
           then all_ceil pw atoms kpd else all_floor pw atoms kpd)"
proof -
  have sr: "stays_real [cell_a atoms, cell_b atoms, cell_c atoms] (cell_volume atoms) kpd"
    using valid_stays_real [OF assms]
    by (simp add: get_cell_lengths_and_angles_def get_volume_def)
  have m: "pw (kpd / cell_volume atoms * cell_a atoms * cell_b atoms * cell_c atoms)
      = mult_of pw atoms kpd"
    by (simp add: mult_of_def get_volume_def)
  have fl: "map (\<lambda>l. \<lfloor>max (mult_of pw atoms kpd / l) 1\<rfloor>) [cell_a atoms, cell_b atoms, cell_c atoms]
      = all_floor pw atoms kpd"
    by (simp add: all_floor_def)
  have ce: "map (\<lambda>l. \<lceil>mult_of pw atoms kpd / l\<rceil>) [cell_a atoms, cell_b atoms, cell_c atoms]
      = all_ceil pw atoms kpd"
    by (simp add: all_ceil_def)
  have tk: "take 3 (get_cell_lengths_and_angles atoms) = [cell_a atoms, cell_b atoms, cell_c atoms]"
    by (simp add: get_cell_lengths_and_angles_def)
  have nth: "[cell_a atoms, cell_b atoms, cell_c atoms] ! 0 = cell_a atoms"
    "[cell_a atoms, cell_b atoms, cell_c atoms] ! 1 = cell_b atoms"
    "[cell_a atoms, cell_b atoms, cell_c atoms] ! 2 = cell_c atoms"
    by simp_all
  show ?thesis
    unfolding jc_kgrid_from_cell_volume_def Let_def tk nth get_volume_def m fl ce
      grid_density_def [symmetric] candidate_relative_error_def [symmetric]
    using sr by (simp only: if_True if_False not_True_eq_False not_not)
qed

section \<open>Concrete runs\<close>

lemma root3_cube: "0 \<le> x \<Longrightarrow> root 3 (x ^ 3) = x"
  by (simp add: real_root_power_cancel)

lemma root3_27_8: "root 3 (27 / 8) = 3 / 2"
  using root3_cube [of "3 / 2"] by (simp add: power3_eq_cube)

lemma root3_9261_1000: "root 3 (9261 / 1000) = 21 / 10"
  using root3_cube [of "21 / 10"] by (simp add: power3_eq_cube)

lemma root3_8: "root 3 8 = 2"
  using root3_cube [of 2] by simp

lemma root3_125_8: "root 3 (125 / 8) = 5 / 2"
  using root3_cube [of "5 / 2"] by (simp add: power3_eq_cube)

lemma root3_216_125: "root 3 (216 / 125) = 6 / 5"
  using root3_cube [of "6 / 5"] by (simp add: power3_eq_cube)

lemmas run = get_kpts_from_kpd_def orthorhombic_def get_volume_def get_cell_lengths_and_angles_def
  get_reciprocal_cell_def stays_real_def density_def argsort_def repair_pass_def
  bump_loop_0 bump_loop_1 bump_loop_2 bump_loop_3 incr_def isclose_def py_int_def Let_def upt3

lemmas quantities = nkpt_of_def nkpt_frac_of_def check_order_of_def delta_ceil_of_def floor_grid_def
  floor_count_def frac_count_def delta_of_def mult_of_def step_of_def orthorhombic_def
  get_volume_def density_def grid_density_def argsort_def isclose_def upt3

lemmas legacy = all_floor_def all_ceil_def candidate_relative_error_def grid_density_def mult_of_def
  orthorhombic_def get_volume_def

lemma run_1_1_2_a:
  "fst (get_kpts_from_kpd (root 3) (orthorhombic 1 1 2) (27 / 8) False False []) = Some [1, 1, 2]"
  by (simp add: run root3_27_8)

lemma run_1_1_2_b:
  "fst (get_kpts_from_kpd (root 3) (orthorhombic 1 1 2) (9261 / 1000) False False []) = Some [3, 3, 1]"
  by (simp add: run root3_9261_1000)

lemma run_1_1_1_even:
  "fst (get_kpts_from_kpd (root 3) (orthorhombic 1 1 1) (27 / 8) True False []) = Some [2, 2, 2]"
  by (simp add: run root3_27_8)

section \<open>The claims\<close>

text \<open>
  C1. The claim is that on every valid input the returned grid meets the target,
  \<open>V * nx * ny * nz \<ge> kpd\<close>. The routine is written to reach it, and reaches it
  whenever the power does not fall below the exact cube root (lemma
  \<open>get_kpts_meets_density_if_root_not_low\<close>). The float power does fall below it. On
  the unit cube with \<open>kpd = 1000.0000000000001\<close>, the double \<open>1000 + 2^-43\<close>, the
  power is \<open>9.999999999999998\<close>, the double \<open>10 - 2^-49\<close>: the counts are floored to
  9, the three fractional counts are equal, so the first branch increments all three
  axes and sets \<open>i = 3\<close>, the loop is skipped, and the grid (10, 10, 10) is returned
  with density 1000, below the target.
\<close>

theorem get_kpts_below_target:
  assumes "pw (1000 + 1 / 2 ^ 43) = 10 - 1 / 2 ^ 49"
  shows "valid_input (orthorhombic 1 1 1) (1000 + 1 / 2 ^ 43) \<and>
     fst (get_kpts_from_kpd pw (orthorhombic 1 1 1) (1000 + 1 / 2 ^ 43) False False [])
       = Some [10, 10, 10] \<and>
     get_volume (orthorhombic 1 1 1) * of_int 10 * of_int 10 * of_int 10 < 1000 + 1 / 2 ^ 43"
proof -
  have v: "valid_input (orthorhombic 1 1 1) (1000 + 1 / 2 ^ 43)"
    by (simp add: valid_input_def orthorhombic_def)
  have r: "fst (get_kpts_from_kpd pw (orthorhombic 1 1 1) (1000 + 1 / 2 ^ 43) False False [])
       = Some [10, 10, 10]"
  proof -
    have K: "(1000 + 1 / 2 ^ 43 :: real) = 8796093022208001 / 8796093022208" by simp
    have M: "(10 - 1 / 2 ^ 49 :: real) = 5629499534213119 / 562949953421312" by simp
    have m: "pw (8796093022208001 / 8796093022208) = 5629499534213119 / 562949953421312"
      using assms unfolding K M .
    show ?thesis by (simp add: run m)
  qed
  have d: "get_volume (orthorhombic 1 1 1) * of_int 10 * of_int 10 * of_int 10 < 1000 + 1 / 2 ^ 43"
    by (simp add: get_volume_def orthorhombic_def)
  show ?thesis using v r d by blast
qed

theorem get_kpts_below_target_witness:
  "(\<lambda>x :: real. 10 - 1 / 2 ^ 49 :: real) (1000 + 1 / 2 ^ 43) = 10 - 1 / 2 ^ 49 \<and>
   fst (get_kpts_from_kpd (\<lambda>x. 10 - 1 / 2 ^ 49) (orthorhombic 1 1 1) (1000 + 1 / 2 ^ 43)
          False False []) = Some [10, 10, 10] \<and>
   get_volume (orthorhombic 1 1 1) * of_int 10 * of_int 10 * of_int 10 < 1000 + 1 / 2 ^ 43"
  using get_kpts_below_target [of "\<lambda>x. 10 - 1 / 2 ^ 49"] by simp

text \<open>
  C2. On every valid input each of the three counts returned by \<open>get_kpts_from_kpd\<close>
  is a positive multiple of the step: with \<open>only_even\<close> every count is even and at
  least 2, without it every count is at least 1. This holds whatever the power
  returns.
\<close>

theorem get_kpts_multiple_of_step:
  assumes "valid_input atoms kpd"
  shows "\<exists>nx ny nz.
     fst (get_kpts_from_kpd pw atoms kpd only_even show_kpts out) = Some [nx, ny, nz] \<and>
     step_of only_even dvd nx \<and> step_of only_even dvd ny \<and> step_of only_even dvd nz \<and>
     step_of only_even \<le> nx \<and> step_of only_even \<le> ny \<and> step_of only_even \<le> nz \<and>
     (only_even \<longrightarrow> even nx \<and> even ny \<and> even nz \<and> 2 \<le> nx \<and> 2 \<le> ny \<and> 2 \<le> nz) \<and>
     (\<not> only_even \<longrightarrow> 1 \<le> nx \<and> 1 \<le> ny \<and> 1 \<le> nz)"
proof -
  obtain nx ny nz where
    r: "fst (get_kpts_from_kpd pw atoms kpd only_even show_kpts out) = Some [nx, ny, nz]"
    and x: "nx = floor_count pw atoms kpd only_even (cell_a atoms) \<or>
            nx = floor_count pw atoms kpd only_even (cell_a atoms) + step_of only_even"
    and y: "ny = floor_count pw atoms kpd only_even (cell_b atoms) \<or>
            ny = floor_count pw atoms kpd only_even (cell_b atoms) + step_of only_even"
    and z: "nz = floor_count pw atoms kpd only_even (cell_c atoms) \<or>
            nz = floor_count pw atoms kpd only_even (cell_c atoms) + step_of only_even"
    using get_kpts_shape [OF assms, of pw only_even show_kpts out] by blast
  have dx: "step_of only_even dvd nx" using x floor_count_dvd by auto
  have dy: "step_of only_even dvd ny" using y floor_count_dvd by auto
  have dz: "step_of only_even dvd nz" using z floor_count_dvd by auto
  have lx: "step_of only_even \<le> nx"
    using x floor_count_ge_step [of only_even pw atoms kpd "cell_a atoms"] step_of_pos [of only_even]
    by auto
  have ly: "step_of only_even \<le> ny"
    using y floor_count_ge_step [of only_even pw atoms kpd "cell_b atoms"] step_of_pos [of only_even]
    by auto
  have lz: "step_of only_even \<le> nz"
    using z floor_count_ge_step [of only_even pw atoms kpd "cell_c atoms"] step_of_pos [of only_even]
    by auto
  have ev: "only_even \<longrightarrow> even nx \<and> even ny \<and> even nz \<and> 2 \<le> nx \<and> 2 \<le> ny \<and> 2 \<le> nz"
    using dx dy dz lx ly lz by (auto simp: step_of_def)
  have od: "\<not> only_even \<longrightarrow> 1 \<le> nx \<and> 1 \<le> ny \<and> 1 \<le> nz"
    using lx ly lz by (auto simp: step_of_def)
  show ?thesis
    using r dx dy dz lx ly lz ev od by blast
qed

theorem get_kpts_multiple_of_step_witness:
  "valid_input (orthorhombic 1 1 1) (27 / 8) \<and>
   (\<exists>nx ny nz.
      fst (get_kpts_from_kpd (root 3) (orthorhombic 1 1 1) (27 / 8) True False [])
        = Some [nx, ny, nz] \<and>
      even nx \<and> even ny \<and> even nz \<and> 2 \<le> nx \<and> 2 \<le> ny \<and> 2 \<le> nz) \<and>
   fst (get_kpts_from_kpd (root 3) (orthorhombic 1 1 1) (27 / 8) True False []) = Some [2, 2, 2]"
proof -
  have v: "valid_input (orthorhombic 1 1 1) (27 / 8)"
    by (simp add: valid_input_def orthorhombic_def)
  have "\<exists>nx ny nz.
      fst (get_kpts_from_kpd (root 3) (orthorhombic 1 1 1) (27 / 8) True False [])
        = Some [nx, ny, nz] \<and>
      even nx \<and> even ny \<and> even nz \<and> 2 \<le> nx \<and> 2 \<le> ny \<and> 2 \<le> nz"
    using get_kpts_multiple_of_step [OF v, of "root 3" True False "[]"] by blast
  then show ?thesis
    using v run_1_1_1_even by blast
qed

text \<open>
  C3, as amended. On a zero cell length or volume, or on a negative target density,
  \<open>get_kpts_from_kpd\<close> fails: it returns no grid and prints nothing. A target density
  of zero on a cell of positive lengths and volume is not rejected: the grid
  \<open>(step, step, step)\<close> is returned (the power of zero being zero). The step is not an
  input: it is 2 or 1 by the flag \<open>only_even\<close>.
\<close>

theorem get_kpts_invalid_input:
  assumes "0 \<le> cell_a atoms" "0 \<le> cell_b atoms" "0 \<le> cell_c atoms" "0 \<le> cell_volume atoms"
  shows "(cell_a atoms = 0 \<or> cell_b atoms = 0 \<or> cell_c atoms = 0 \<or> cell_volume atoms = 0 \<or>
            kpd < 0
          \<longrightarrow> get_kpts_from_kpd pw atoms kpd only_even show_kpts out = (None, out)) \<and>
         (0 < cell_a atoms \<and> 0 < cell_b atoms \<and> 0 < cell_c atoms \<and> 0 < cell_volume atoms \<and>
            kpd = 0 \<and> pw 0 = 0
          \<longrightarrow> fst (get_kpts_from_kpd pw atoms kpd only_even show_kpts out)
                = Some [step_of only_even, step_of only_even, step_of only_even]) \<and>
         (step_of only_even = 1 \<or> step_of only_even = 2)"
proof (intro conjI impI)
  assume bad: "cell_a atoms = 0 \<or> cell_b atoms = 0 \<or> cell_c atoms = 0 \<or> cell_volume atoms = 0 \<or>
            kpd < 0"
  show "get_kpts_from_kpd pw atoms kpd only_even show_kpts out = (None, out)"
  proof (cases "cell_a atoms = 0 \<or> cell_b atoms = 0 \<or> cell_c atoms = 0 \<or> cell_volume atoms = 0")
    case True
    then show ?thesis
      by (intro get_kpts_raises zero_geometry_leaves_reals)
  next
    case False
    then have "0 < cell_a atoms" "0 < cell_b atoms" "0 < cell_c atoms" "0 < cell_volume atoms"
      "kpd < 0"
      using assms bad by auto
    then show ?thesis
      by (intro get_kpts_raises negative_density_leaves_reals)
  qed
next
  assume "0 < cell_a atoms \<and> 0 < cell_b atoms \<and> 0 < cell_c atoms \<and> 0 < cell_volume atoms \<and>
            kpd = 0 \<and> pw 0 = 0"
  then show "fst (get_kpts_from_kpd pw atoms kpd only_even show_kpts out)
                = Some [step_of only_even, step_of only_even, step_of only_even]"
    using get_kpts_zero_density [of atoms pw only_even show_kpts out] by simp
next
  show "step_of only_even = 1 \<or> step_of only_even = 2"
    by (simp add: step_of_def)
qed

theorem get_kpts_invalid_input_witness:
  "get_kpts_from_kpd (root 3) (orthorhombic 1 1 0) 8 False True [] = (None, []) \<and>
   get_kpts_from_kpd (root 3) (orthorhombic 1 1 1) (- 8) False True [] = (None, []) \<and>
   fst (get_kpts_from_kpd (root 3) (orthorhombic 1 1 1) 0 True False []) = Some [2, 2, 2]"
proof -
  have z: "get_kpts_from_kpd (root 3) (orthorhombic 1 1 0) 8 False True [] = (None, [])"
    using get_kpts_invalid_input [of "orthorhombic 1 1 0" 8 "root 3" False True "[]"]
    by (simp add: orthorhombic_def)
  have n: "get_kpts_from_kpd (root 3) (orthorhombic 1 1 1) (- 8) False True [] = (None, [])"
    using get_kpts_invalid_input [of "orthorhombic 1 1 1" "- 8" "root 3" False True "[]"]
    by (simp add: orthorhombic_def)
  have k: "fst (get_kpts_from_kpd (root 3) (orthorhombic 1 1 1) 0 True False []) = Some [2, 2, 2]"
    using get_kpts_invalid_input [of "orthorhombic 1 1 1" 0 "root 3" True False "[]"]
    by (simp add: orthorhombic_def step_of_def)
  show ?thesis using z n k by blast
qed

text \<open>
  The claim as the specification states it asks for a failure on a non-positive target
  density. On the unit cube with target density zero the routine returns a grid.
\<close>

theorem get_kpts_zero_density_grid:
  "\<not> valid_input (orthorhombic 1 1 1) 0 \<and>
   fst (get_kpts_from_kpd (root 3) (orthorhombic 1 1 1) 0 False False []) = Some [1, 1, 1]"
  by (simp add: run) (simp add: valid_input_def)

text \<open>
  C4, as amended. For a fixed cell and step and positive target densities
  \<open>kpd1 \<le> kpd2\<close>, no axis count returned for \<open>kpd2\<close> is smaller than the count
  returned for \<open>kpd1\<close> by more than one step. The power is taken to be monotone, as
  the exact cube root is.
\<close>

theorem get_kpts_monotone_up_to_step:
  assumes "valid_input atoms kpd1" "valid_input atoms kpd2" "kpd1 \<le> kpd2" "mono_on {0..} pw"
  shows "\<exists>x1 y1 z1 x2 y2 z2.
     fst (get_kpts_from_kpd pw atoms kpd1 only_even show1 out1) = Some [x1, y1, z1] \<and>
     fst (get_kpts_from_kpd pw atoms kpd2 only_even show2 out2) = Some [x2, y2, z2] \<and>
     x1 \<le> x2 + step_of only_even \<and> y1 \<le> y2 + step_of only_even \<and> z1 \<le> z2 + step_of only_even"
proof -
  have pos: "0 < cell_a atoms" "0 < cell_b atoms" "0 < cell_c atoms"
    using assms(1) by (simp_all add: valid_input_def)
  obtain x1 y1 z1 where
    r1: "fst (get_kpts_from_kpd pw atoms kpd1 only_even show1 out1) = Some [x1, y1, z1]"
    and x1: "x1 \<le> floor_count pw atoms kpd1 only_even (cell_a atoms) + step_of only_even"
    and y1: "y1 \<le> floor_count pw atoms kpd1 only_even (cell_b atoms) + step_of only_even"
    and z1: "z1 \<le> floor_count pw atoms kpd1 only_even (cell_c atoms) + step_of only_even"
    using get_kpts_shape [OF assms(1), of pw only_even show1 out1] step_of_pos [of only_even]
    by (elim exE conjE) force
  obtain x2 y2 z2 where
    r2: "fst (get_kpts_from_kpd pw atoms kpd2 only_even show2 out2) = Some [x2, y2, z2]"
    and x2: "floor_count pw atoms kpd2 only_even (cell_a atoms) \<le> x2"
    and y2: "floor_count pw atoms kpd2 only_even (cell_b atoms) \<le> y2"
    and z2: "floor_count pw atoms kpd2 only_even (cell_c atoms) \<le> z2"
    using get_kpts_shape [OF assms(2), of pw only_even show2 out2] step_of_pos [of only_even]
    by (elim exE conjE) force
  have "x1 \<le> x2 + step_of only_even"
    using x1 x2 floor_count_mono [OF assms(1,3,4) pos(1), of only_even] by linarith
  moreover have "y1 \<le> y2 + step_of only_even"
    using y1 y2 floor_count_mono [OF assms(1,3,4) pos(2), of only_even] by linarith
  moreover have "z1 \<le> z2 + step_of only_even"
    using z1 z2 floor_count_mono [OF assms(1,3,4) pos(3), of only_even] by linarith
  ultimately show ?thesis
    using r1 r2 by blast
qed

theorem get_kpts_monotone_up_to_step_witness:
  "valid_input (orthorhombic 1 1 2) (27 / 8) \<and> valid_input (orthorhombic 1 1 2) (9261 / 1000) \<and>
   (27 / 8 :: real) \<le> 9261 / 1000 \<and> mono_on {0..} (root 3) \<and>
   (\<exists>x1 y1 z1 x2 y2 z2.
     fst (get_kpts_from_kpd (root 3) (orthorhombic 1 1 2) (27 / 8) False False [])
       = Some [x1, y1, z1] \<and>
     fst (get_kpts_from_kpd (root 3) (orthorhombic 1 1 2) (9261 / 1000) False False [])
       = Some [x2, y2, z2] \<and>
     x1 \<le> x2 + step_of False \<and> y1 \<le> y2 + step_of False \<and> z1 \<le> z2 + step_of False)"
proof -
  have v1: "valid_input (orthorhombic 1 1 2) (27 / 8)"
    by (simp add: valid_input_def orthorhombic_def)
  have v2: "valid_input (orthorhombic 1 1 2) (9261 / 1000)"
    by (simp add: valid_input_def orthorhombic_def)
  have le: "(27 / 8 :: real) \<le> 9261 / 1000" by simp
  show ?thesis
    using v1 v2 le root3_mono_on
      get_kpts_monotone_up_to_step [OF v1 v2 le root3_mono_on, of False False "[]" False "[]"]
    by blast
qed

text \<open>
  The counts themselves are not monotone. On the cell with edges 1, 1, 2 the target
  27/8 gives the grid (1, 1, 2): the third axis is the nearest to its next multiple and
  is incremented alone. The larger target 9261/1000 gives (3, 3, 1): now the first two
  axes tie and are incremented together, and the third stays at its floor.
\<close>

theorem get_kpts_not_monotone:
  "valid_input (orthorhombic 1 1 2) (27 / 8) \<and> valid_input (orthorhombic 1 1 2) (9261 / 1000) \<and>
   (27 / 8 :: real) \<le> 9261 / 1000 \<and>
   fst (get_kpts_from_kpd (root 3) (orthorhombic 1 1 2) (27 / 8) False False []) = Some [1, 1, 2] \<and>
   fst (get_kpts_from_kpd (root 3) (orthorhombic 1 1 2) (9261 / 1000) False False [])
     = Some [3, 3, 1]"
  by (simp add: run_1_1_2_a run_1_1_2_b) (simp add: valid_input_def orthorhombic_def)

text \<open>
  C5. On a cubic cell (\<open>a = b = c\<close>) with step 1, when \<open>mult / a\<close> is an integer,
  \<open>get_kpts_from_kpd\<close> returns three equal counts: the floored count, or the floored
  count plus one; and the floored count itself when the power is not below the exact
  cube root, as then no axis is incremented.
\<close>

theorem get_kpts_cubic_integer:
  assumes "valid_input atoms kpd"
    and "cell_a atoms = cell_b atoms" and "cell_b atoms = cell_c atoms"
    and "mult_of pw atoms kpd / cell_a atoms \<in> \<int>"
  shows "\<exists>n. fst (get_kpts_from_kpd pw atoms kpd False show_kpts out) = Some [n, n, n] \<and>
             (n = floor_count pw atoms kpd False (cell_a atoms) \<or>
              n = floor_count pw atoms kpd False (cell_a atoms) + 1) \<and>
             (kpd / cell_volume atoms * cell_a atoms * cell_b atoms * cell_c atoms
                  \<le> mult_of pw atoms kpd ^ 3
              \<longrightarrow> n = floor_count pw atoms kpd False (cell_a atoms))"
proof -
  define a where "a = cell_a atoms"
  define m where "m = mult_of pw atoms kpd"
  define n where "n = floor_count pw atoms kpd False a"
  define f where "f = frac_count pw atoms kpd False a"
  have eq: "cell_b atoms = a" "cell_c atoms = a"
    using assms(2,3) by (simp_all add: a_def)
  have pos: "0 < a" "0 < cell_volume atoms" "0 < kpd"
    using assms(1) by (simp_all add: valid_input_def a_def)
  have shape: "fst (get_kpts_from_kpd pw atoms kpd False show_kpts out) =
      (if density (get_volume atoms) [of_int n, of_int n, of_int n] < kpd
       then Some [n + 1, n + 1, n + 1] else Some [n, n, n])"
    using get_kpts_cubic [OF assms(1,2,3), of pw show_kpts out]
    by (simp add: density_def get_volume_def n_def a_def)
  have exact: "kpd \<le> density (get_volume atoms) [of_int n, of_int n, of_int n]"
    if nl: "kpd / cell_volume atoms * cell_a atoms * cell_b atoms * cell_c atoms
                  \<le> mult_of pw atoms kpd ^ 3"
  proof -
    have m3: "kpd / cell_volume atoms * a * a * a \<le> m ^ 3"
      using nl by (simp add: m_def a_def eq [unfolded a_def])
    have mpos: "0 < m"
      using mult_of_pos [OF assms(1) nl] by (simp add: m_def)
    have fz: "f \<in> \<int>"
      using assms(4) by (simp add: f_def frac_count_def step_of_def max_def a_def)
    then have nfr: "of_int n = f"
      by (auto simp: n_def f_def floor_count_def step_of_def elim: Ints_cases)
    have ge: "m / a \<le> of_int n"
      using frac_count_ge [of pw atoms kpd a False] by (simp add: nfr f_def m_def)
    have q: "0 \<le> m / a" using pos mpos by simp
    have sq: "(m / a) * (m / a) \<le> of_int n * of_int n"
      using ge q by (intro mult_mono) simp_all
    have nn: "0 \<le> (of_int n :: real) * of_int n" by simp
    have cube: "(m / a) * (m / a) * (m / a) \<le> of_int n * of_int n * of_int n"
      by (rule mult_mono [OF sq ge nn q])
    have "(m / a) * (m / a) * (m / a) = m ^ 3 / (a * a * a)"
      by (simp add: power3_eq_cube)
    moreover have "kpd / cell_volume atoms * a * a * a / (a * a * a) \<le> m ^ 3 / (a * a * a)"
      using m3 pos by (intro divide_right_mono) simp_all
    moreover have "kpd / cell_volume atoms * a * a * a / (a * a * a) = kpd / cell_volume atoms"
      using pos by simp
    ultimately have "kpd / cell_volume atoms \<le> of_int n * of_int n * of_int n"
      using cube by linarith
    then have "kpd \<le> cell_volume atoms * (of_int n * of_int n * of_int n)"
      using pos by (simp add: pos_divide_le_eq mult.commute)
    then show ?thesis
      by (simp add: density_def get_volume_def mult.assoc)
  qed
  show ?thesis
  proof (cases "density (get_volume atoms) [of_int n, of_int n, of_int n] < kpd")
    case True
    then have "fst (get_kpts_from_kpd pw atoms kpd False show_kpts out) = Some [n + 1, n + 1, n + 1]"
      using shape by simp
    moreover have "\<not> kpd / cell_volume atoms * cell_a atoms * cell_b atoms * cell_c atoms
                  \<le> mult_of pw atoms kpd ^ 3"
      using True exact by force
    ultimately show ?thesis
      unfolding n_def a_def by blast
  next
    case False
    then have "fst (get_kpts_from_kpd pw atoms kpd False show_kpts out) = Some [n, n, n]"
      using shape by simp
    then show ?thesis
      unfolding n_def a_def by blast
  qed
qed

theorem get_kpts_cubic_integer_witness:
  "valid_input (orthorhombic 1 1 1) 8 \<and>
   cell_a (orthorhombic 1 1 1) = cell_b (orthorhombic 1 1 1) \<and>
   cell_b (orthorhombic 1 1 1) = cell_c (orthorhombic 1 1 1) \<and>
   mult_of (root 3) (orthorhombic 1 1 1) 8 / cell_a (orthorhombic 1 1 1) \<in> \<int> \<and>
   floor_count (root 3) (orthorhombic 1 1 1) 8 False (cell_a (orthorhombic 1 1 1)) = 2 \<and>
   fst (get_kpts_from_kpd (root 3) (orthorhombic 1 1 1) 8 False False []) = Some [2, 2, 2]"
proof -
  have v: "valid_input (orthorhombic 1 1 1) 8"
    by (simp add: valid_input_def orthorhombic_def)
  have e: "cell_a (orthorhombic 1 1 1) = cell_b (orthorhombic 1 1 1)"
    "cell_b (orthorhombic 1 1 1) = cell_c (orthorhombic 1 1 1)"
    by (simp_all add: orthorhombic_def)
  have i: "mult_of (root 3) (orthorhombic 1 1 1) 8 / cell_a (orthorhombic 1 1 1) \<in> \<int>"
    by (simp add: mult_of_def orthorhombic_def get_volume_def root3_8)
  have f: "floor_count (root 3) (orthorhombic 1 1 1) 8 False (cell_a (orthorhombic 1 1 1)) = 2"
    by (simp add: floor_count_def frac_count_def step_of_def mult_of_def orthorhombic_def
        get_volume_def root3_8)
  have nl: "8 / cell_volume (orthorhombic 1 1 1) * cell_a (orthorhombic 1 1 1)
        * cell_b (orthorhombic 1 1 1) * cell_c (orthorhombic 1 1 1)
      \<le> mult_of (root 3) (orthorhombic 1 1 1) 8 ^ 3"
    by (simp add: mult_of_def orthorhombic_def get_volume_def root3_8)
  have "fst (get_kpts_from_kpd (root 3) (orthorhombic 1 1 1) 8 False False []) = Some [2, 2, 2]"
    using get_kpts_cubic_integer [OF v e i, of False "[]"] nl unfolding f by auto
  then show ?thesis
    using v e i f by blast
qed

text \<open>
  C6. In the repair pass, when the floored grid is below the target and, of the axes
  ranked ascending by \<open>delta_ceil\<close>, the two nearest are not approximately equal while
  the two farthest are, the routine increments the nearest-ranked axis by the step, and
  if the density is still below the target it increments the other two axes as well.
  The ranking is a permutation of the three axes along which \<open>delta_ceil\<close> ascends,
  and the grid returned is the one so described: nothing else is incremented. This
  holds whatever the power returns.
\<close>

theorem get_kpts_two_farthest_equal:
  assumes "valid_input atoms kpd"
    and "grid_density atoms (floor_grid pw atoms kpd only_even) < kpd"
    and "\<not> isclose
           (nkpt_frac_of pw atoms kpd only_even ! (check_order_of pw atoms kpd only_even ! 0))
           (nkpt_frac_of pw atoms kpd only_even ! (check_order_of pw atoms kpd only_even ! 1))"
    and "isclose
           (nkpt_frac_of pw atoms kpd only_even ! (check_order_of pw atoms kpd only_even ! 1))
           (nkpt_frac_of pw atoms kpd only_even ! (check_order_of pw atoms kpd only_even ! 2))"
  shows "set (check_order_of pw atoms kpd only_even) = {0, 1, 2} \<and>
     delta_ceil_of pw atoms kpd only_even ! (check_order_of pw atoms kpd only_even ! 0)
       \<le> delta_ceil_of pw atoms kpd only_even ! (check_order_of pw atoms kpd only_even ! 1) \<and>
     delta_ceil_of pw atoms kpd only_even ! (check_order_of pw atoms kpd only_even ! 1)
       \<le> delta_ceil_of pw atoms kpd only_even ! (check_order_of pw atoms kpd only_even ! 2) \<and>
     (\<exists>g. fst (get_kpts_from_kpd pw atoms kpd only_even show_kpts out) = Some g \<and>
          third_branch_grid (cell_volume atoms) kpd (step_of only_even)
            (check_order_of pw atoms kpd only_even) (floor_grid pw atoms kpd only_even) g)"
proof -
  define x where "x = delta_of pw atoms kpd only_even (cell_a atoms)"
  define y where "y = delta_of pw atoms kpd only_even (cell_b atoms)"
  define z where "z = delta_of pw atoms kpd only_even (cell_c atoms)"
  define n0 where "n0 = floor_count pw atoms kpd only_even (cell_a atoms)"
  define n1 where "n1 = floor_count pw atoms kpd only_even (cell_b atoms)"
  define n2 where "n2 = floor_count pw atoms kpd only_even (cell_c atoms)"
  have dl: "delta_ceil_of pw atoms kpd only_even = [x, y, z]"
    by (simp add: delta_ceil_of_def x_def y_def z_def)
  have co: "check_order_of pw atoms kpd only_even = argsort [x, y, z]"
    by (simp add: check_order_of_def dl)
  have fl: "floor_grid pw atoms kpd only_even = [n0, n1, n2]"
    by (simp add: floor_grid_def n0_def n1_def n2_def)
  have nk: "nkpt_of pw atoms kpd only_even = [of_int n0, of_int n1, of_int n2]"
    by (simp add: nkpt_of_def n0_def n1_def n2_def)
  have below: "density (cell_volume atoms) [of_int n0, of_int n1, of_int n2] < kpd"
    using assms(2) by (simp add: fl grid_density_def density_def)
  have res: "fst (get_kpts_from_kpd pw atoms kpd only_even show_kpts out) =
      Some (map (\<lambda>i. py_int (fst (repair (cell_volume atoms) kpd (of_int (step_of only_even))
               (nkpt_frac_of pw atoms kpd only_even) (argsort [x, y, z])
               [of_int n0, of_int n1, of_int n2]) ! i)) [0..<3])"
    using get_kpts_eq_repair [OF valid_stays_real [OF assms(1)], of pw only_even show_kpts out]
    by (simp only: co nk get_volume_def)
  have tb: "third_branch_grid (cell_volume atoms) kpd (step_of only_even) (argsort [x, y, z])
      [n0, n1, n2]
      (map (\<lambda>i. py_int (fst (repair (cell_volume atoms) kpd (of_int (step_of only_even))
               (nkpt_frac_of pw atoms kpd only_even) (argsort [x, y, z])
               [of_int n0, of_int n1, of_int n2]) ! i)) [0..<3])"
    by (rule third_branch [OF below assms(3) [unfolded co] assms(4) [unfolded co]])
  show ?thesis
    unfolding co dl fl
    using argsort3_set [of x y z] argsort3_ranked [of x y z] res tb by blast
qed

theorem get_kpts_two_farthest_equal_witness:
  "valid_input (orthorhombic 2 2 1) (125 / 8) \<and>
   nkpt_frac_of (root 3) (orthorhombic 2 2 1) (125 / 8) False = [5 / 4, 5 / 4, 5 / 2] \<and>
   delta_ceil_of (root 3) (orthorhombic 2 2 1) (125 / 8) False = [3 / 4, 3 / 4, 1 / 2] \<and>
   check_order_of (root 3) (orthorhombic 2 2 1) (125 / 8) False = [2, 0, 1] \<and>
   floor_grid (root 3) (orthorhombic 2 2 1) (125 / 8) False = [1, 1, 2] \<and>
   grid_density (orthorhombic 2 2 1) [1, 1, 2] < 125 / 8 \<and>
   \<not> isclose (5 / 2) (5 / 4) \<and> isclose (5 / 4) (5 / 4) \<and>
   (\<exists>g. fst (get_kpts_from_kpd (root 3) (orthorhombic 2 2 1) (125 / 8) False False []) = Some g \<and>
        third_branch_grid (cell_volume (orthorhombic 2 2 1)) (125 / 8) (step_of False)
          [2, 0, 1] [1, 1, 2] g) \<and>
   fst (get_kpts_from_kpd (root 3) (orthorhombic 2 2 1) (125 / 8) False False []) = Some [2, 2, 3]"
proof -
  have v: "valid_input (orthorhombic 2 2 1) (125 / 8)"
    by (simp add: valid_input_def orthorhombic_def)
  have fr: "nkpt_frac_of (root 3) (orthorhombic 2 2 1) (125 / 8) False = [5 / 4, 5 / 4, 5 / 2]"
    by (simp add: quantities root3_125_8)
  have dl: "delta_ceil_of (root 3) (orthorhombic 2 2 1) (125 / 8) False = [3 / 4, 3 / 4, 1 / 2]"
    by (simp add: quantities root3_125_8)
  have co: "check_order_of (root 3) (orthorhombic 2 2 1) (125 / 8) False = [2, 0, 1]"
    by (simp add: quantities root3_125_8)
  have fl: "floor_grid (root 3) (orthorhombic 2 2 1) (125 / 8) False = [1, 1, 2]"
    by (simp add: quantities root3_125_8)
  have d: "grid_density (orthorhombic 2 2 1) [1, 1, 2] < 125 / 8"
    by (simp add: quantities)
  have c1: "\<not> isclose (5 / 2) (5 / 4)" and c2: "isclose (5 / 4) (5 / 4)"
    by (simp_all add: isclose_def)
  have h2: "grid_density (orthorhombic 2 2 1)
      (floor_grid (root 3) (orthorhombic 2 2 1) (125 / 8) False) < 125 / 8"
    unfolding fl by (rule d)
  have h3: "\<not> isclose
      (nkpt_frac_of (root 3) (orthorhombic 2 2 1) (125 / 8) False
         ! (check_order_of (root 3) (orthorhombic 2 2 1) (125 / 8) False ! 0))
      (nkpt_frac_of (root 3) (orthorhombic 2 2 1) (125 / 8) False
         ! (check_order_of (root 3) (orthorhombic 2 2 1) (125 / 8) False ! 1))"
    unfolding fr co using c1 by simp
  have h4: "isclose
      (nkpt_frac_of (root 3) (orthorhombic 2 2 1) (125 / 8) False
         ! (check_order_of (root 3) (orthorhombic 2 2 1) (125 / 8) False ! 1))
      (nkpt_frac_of (root 3) (orthorhombic 2 2 1) (125 / 8) False
         ! (check_order_of (root 3) (orthorhombic 2 2 1) (125 / 8) False ! 2))"
    unfolding fr co using c2 by simp
  have ex: "\<exists>g. fst (get_kpts_from_kpd (root 3) (orthorhombic 2 2 1) (125 / 8) False False [])
        = Some g \<and>
      third_branch_grid (cell_volume (orthorhombic 2 2 1)) (125 / 8) (step_of False)
        [2, 0, 1] [1, 1, 2] g"
    using get_kpts_two_farthest_equal [OF v h2 h3 h4, of False "[]"] unfolding co fl by blast
  then obtain g where
    g: "fst (get_kpts_from_kpd (root 3) (orthorhombic 2 2 1) (125 / 8) False False []) = Some g"
    and t: "third_branch_grid (cell_volume (orthorhombic 2 2 1)) (125 / 8) (step_of False)
        [2, 0, 1] [1, 1, 2] g"
    by blast
  have "length g = 3" "g ! 0 = 2" "g ! 1 = 2" "g ! 2 = 3"
    using t by (simp_all add: third_branch_grid_def orthorhombic_def step_of_def)
  then have "g = [2, 2, 3]"
    using list3 [of g] by simp
  then have r: "fst (get_kpts_from_kpd (root 3) (orthorhombic 2 2 1) (125 / 8) False False [])
      = Some [2, 2, 3]"
    using g by simp
  show ?thesis
    using v fr dl co fl d c1 c2 ex r by blast
qed

text \<open>
  C7, as amended. On every valid input (the multiplier the power returns being
  positive) \<open>kgrid_from_cell_volume\<close>, in both copies, forms two candidates, every axis
  floored (never below 1) and every axis ceiled, computes for each the distance of its
  density from the target relative to the candidate's own density, \<open>|kpd - d| / d\<close>,
  and returns the all-ceil candidate exactly when its error is strictly lower than the
  all-floor candidate's, otherwise the all-floor candidate.
\<close>

theorem kgrid_from_cell_volume_choice:
  assumes "valid_input atoms kpd" and "0 < mult_of pw atoms kpd"
  shows "kgrid_from_cell_volume pw atoms kpd =
           Some (if candidate_relative_error atoms kpd (all_ceil pw atoms kpd)
                      < candidate_relative_error atoms kpd (all_floor pw atoms kpd)
                 then all_ceil pw atoms kpd else all_floor pw atoms kpd) \<and>
         jc_kgrid_from_cell_volume pw atoms kpd = kgrid_from_cell_volume pw atoms kpd"
  using kgrid_from_cell_volume_eq [OF assms(1), of pw] jc_kgrid_from_cell_volume_eq [OF assms(1), of pw]
    all_ceil_density_pos [OF assms]
  by simp

theorem kgrid_from_cell_volume_choice_witness:
  "valid_input (orthorhombic 1 1 1) (216 / 125) \<and>
   0 < mult_of (root 3) (orthorhombic 1 1 1) (216 / 125) \<and>
   all_floor (root 3) (orthorhombic 1 1 1) (216 / 125) = [1, 1, 1] \<and>
   all_ceil (root 3) (orthorhombic 1 1 1) (216 / 125) = [2, 2, 2] \<and>
   candidate_relative_error (orthorhombic 1 1 1) (216 / 125) [1, 1, 1] = 91 / 125 \<and>
   candidate_relative_error (orthorhombic 1 1 1) (216 / 125) [2, 2, 2] = 98 / 125 \<and>
   kgrid_from_cell_volume (root 3) (orthorhombic 1 1 1) (216 / 125) = Some [1, 1, 1] \<and>
   valid_input (orthorhombic 1 1 1) (27 / 8) \<and>
   0 < mult_of (root 3) (orthorhombic 1 1 1) (27 / 8) \<and>
   all_floor (root 3) (orthorhombic 1 1 1) (27 / 8) = [1, 1, 1] \<and>
   all_ceil (root 3) (orthorhombic 1 1 1) (27 / 8) = [2, 2, 2] \<and>
   candidate_relative_error (orthorhombic 1 1 1) (27 / 8) [1, 1, 1] = 19 / 8 \<and>
   candidate_relative_error (orthorhombic 1 1 1) (27 / 8) [2, 2, 2] = 37 / 64 \<and>
   kgrid_from_cell_volume (root 3) (orthorhombic 1 1 1) (27 / 8) = Some [2, 2, 2]"
proof -
  have v: "valid_input (orthorhombic 1 1 1) (216 / 125)"
    by (simp add: valid_input_def orthorhombic_def)
  have p: "0 < mult_of (root 3) (orthorhombic 1 1 1) (216 / 125)"
    by (simp add: legacy root3_216_125)
  have f: "all_floor (root 3) (orthorhombic 1 1 1) (216 / 125) = [1, 1, 1]"
    by (simp add: legacy root3_216_125)
  have c: "all_ceil (root 3) (orthorhombic 1 1 1) (216 / 125) = [2, 2, 2]"
    by (simp add: legacy root3_216_125)
  have ef: "candidate_relative_error (orthorhombic 1 1 1) (216 / 125) [1, 1, 1] = 91 / 125"
    by (simp add: legacy)
  have ec: "candidate_relative_error (orthorhombic 1 1 1) (216 / 125) [2, 2, 2] = 98 / 125"
    by (simp add: legacy)
  have r: "kgrid_from_cell_volume (root 3) (orthorhombic 1 1 1) (216 / 125) = Some [1, 1, 1]"
    using kgrid_from_cell_volume_choice [OF v p] unfolding f c ef ec by simp
  have v': "valid_input (orthorhombic 1 1 1) (27 / 8)"
    by (simp add: valid_input_def orthorhombic_def)
  have p': "0 < mult_of (root 3) (orthorhombic 1 1 1) (27 / 8)"
    by (simp add: legacy root3_27_8)
  have f': "all_floor (root 3) (orthorhombic 1 1 1) (27 / 8) = [1, 1, 1]"
    by (simp add: legacy root3_27_8)
  have c': "all_ceil (root 3) (orthorhombic 1 1 1) (27 / 8) = [2, 2, 2]"
    by (simp add: legacy root3_27_8)
  have ef': "candidate_relative_error (orthorhombic 1 1 1) (27 / 8) [1, 1, 1] = 19 / 8"
    by (simp add: legacy)
  have ec': "candidate_relative_error (orthorhombic 1 1 1) (27 / 8) [2, 2, 2] = 37 / 64"
    by (simp add: legacy)
  have r': "kgrid_from_cell_volume (root 3) (orthorhombic 1 1 1) (27 / 8) = Some [2, 2, 2]"
    using kgrid_from_cell_volume_choice [OF v' p'] unfolding f' c' ef' ec' by simp
  show ?thesis
    using v p f c ef ec r v' p' f' c' ef' ec' r' by blast
qed

text \<open>
  With the error taken relative to the target, \<open>|d - kpd| / kpd\<close>, the choice is
  another one. On the unit cube with target 27/8 the all-floor grid has the lower error
  relative to the target (19/27 against 37/27), and the routine returns the all-ceil
  grid.
\<close>

theorem kgrid_from_cell_volume_not_target_relative:
  "valid_input (orthorhombic 1 1 1) (27 / 8) \<and>
   all_floor (root 3) (orthorhombic 1 1 1) (27 / 8) = [1, 1, 1] \<and>
   all_ceil (root 3) (orthorhombic 1 1 1) (27 / 8) = [2, 2, 2] \<and>
   target_relative_error (orthorhombic 1 1 1) (27 / 8) [1, 1, 1] = 19 / 27 \<and>
   target_relative_error (orthorhombic 1 1 1) (27 / 8) [2, 2, 2] = 37 / 27 \<and>
   kgrid_from_cell_volume (root 3) (orthorhombic 1 1 1) (27 / 8) = Some [2, 2, 2] \<and>
   jc_kgrid_from_cell_volume (root 3) (orthorhombic 1 1 1) (27 / 8) = Some [2, 2, 2]"
proof -
  have v: "valid_input (orthorhombic 1 1 1) (27 / 8)"
    by (simp add: valid_input_def orthorhombic_def)
  have f: "all_floor (root 3) (orthorhombic 1 1 1) (27 / 8) = [1, 1, 1]"
    by (simp add: legacy root3_27_8)
  have c: "all_ceil (root 3) (orthorhombic 1 1 1) (27 / 8) = [2, 2, 2]"
    by (simp add: legacy root3_27_8)
  have tf: "target_relative_error (orthorhombic 1 1 1) (27 / 8) [1, 1, 1] = 19 / 27"
    by (simp add: target_relative_error_def grid_density_def orthorhombic_def)
  have tc: "target_relative_error (orthorhombic 1 1 1) (27 / 8) [2, 2, 2] = 37 / 27"
    by (simp add: target_relative_error_def grid_density_def orthorhombic_def)
  have r: "kgrid_from_cell_volume (root 3) (orthorhombic 1 1 1) (27 / 8) = Some [2, 2, 2]"
    unfolding kgrid_from_cell_volume_eq [OF v] f c by (simp add: legacy)
  have j: "jc_kgrid_from_cell_volume (root 3) (orthorhombic 1 1 1) (27 / 8) = Some [2, 2, 2]"
    unfolding jc_kgrid_from_cell_volume_eq [OF v] f c by (simp add: legacy)
  show ?thesis
    using v f c tf tc r j by blast
qed

text \<open>
  C8. The copies of the grid solver compute the same function:
  \<open>safe_kgrid_from_cell_volume\<close> of kgrid.py and of job\_control.py return the same
  grid on every input, and \<open>get_kpts_from_kpd\<close> without \<open>only_even\<close> returns the same
  grid as \<open>safe_kgrid_from_cell_volume\<close>, whatever the power returns.
\<close>

theorem grid_solvers_agree:
  "safe_kgrid_from_cell_volume pw atoms kpd = jc_safe_kgrid_from_cell_volume pw atoms kpd \<and>
   fst (get_kpts_from_kpd pw atoms kpd False show_kpts out)
     = safe_kgrid_from_cell_volume pw atoms kpd"
proof
  show "safe_kgrid_from_cell_volume pw atoms kpd = jc_safe_kgrid_from_cell_volume pw atoms kpd"
    by (simp add: safe_kgrid_from_cell_volume_def jc_safe_kgrid_from_cell_volume_def
        safe_repair_pass_eq jc_safe_repair_pass_eq safe_bump_loop_eq jc_safe_bump_loop_eq Let_def)
  show "fst (get_kpts_from_kpd pw atoms kpd False show_kpts out)
      = safe_kgrid_from_cell_volume pw atoms kpd"
    by (simp add: safe_kgrid_from_cell_volume_def get_kpts_from_kpd_def
        safe_repair_pass_eq safe_bump_loop_eq density_def Let_def split: prod.splits)
qed

text \<open>
  C10. \<open>kgrid_from_cell_volume\<close> does not guarantee the target density: on the unit
  cube with target 216/125, for every power that returns a number strictly between 1
  and 2 there (the cube root is 6/5), both copies return the all-floor grid (1, 1, 1),
  whose density 1 is below the target. \<open>get_kpts_from_kpd\<close> returns (2, 2, 2) there.
\<close>

theorem kgrid_from_cell_volume_below_target:
  assumes "1 < pw (216 / 125)" and "pw (216 / 125) < 2"
  shows "valid_input (orthorhombic 1 1 1) (216 / 125) \<and>
     kgrid_from_cell_volume pw (orthorhombic 1 1 1) (216 / 125) = Some [1, 1, 1] \<and>
     jc_kgrid_from_cell_volume pw (orthorhombic 1 1 1) (216 / 125) = Some [1, 1, 1] \<and>
     get_volume (orthorhombic 1 1 1) * of_int 1 * of_int 1 * of_int 1 < 216 / 125 \<and>
     fst (get_kpts_from_kpd pw (orthorhombic 1 1 1) (216 / 125) False False []) = Some [2, 2, 2]"
proof -
  have v: "valid_input (orthorhombic 1 1 1) (216 / 125)"
    by (simp add: valid_input_def orthorhombic_def)
  have m: "mult_of pw (orthorhombic 1 1 1) (216 / 125) = pw (216 / 125)"
    by (simp add: mult_of_def orthorhombic_def get_volume_def)
  have fl1: "\<lfloor>pw (216 / 125)\<rfloor> = 1"
    using assms by (simp add: floor_eq_iff)
  have ce2: "\<lceil>pw (216 / 125)\<rceil> = 2"
    using assms by (simp add: ceiling_eq_iff)
  have mx: "max (pw (216 / 125)) 1 = pw (216 / 125)"
    using assms(1) by simp
  have f: "all_floor pw (orthorhombic 1 1 1) (216 / 125) = [1, 1, 1]"
    by (simp add: all_floor_def m mx fl1) (simp add: orthorhombic_def mx fl1)
  have c: "all_ceil pw (orthorhombic 1 1 1) (216 / 125) = [2, 2, 2]"
    by (simp add: all_ceil_def m) (simp add: orthorhombic_def ce2)
  have r: "kgrid_from_cell_volume pw (orthorhombic 1 1 1) (216 / 125) = Some [1, 1, 1]"
    unfolding kgrid_from_cell_volume_eq [OF v] f c
    by (simp add: candidate_relative_error_def grid_density_def orthorhombic_def)
  have j: "jc_kgrid_from_cell_volume pw (orthorhombic 1 1 1) (216 / 125) = Some [1, 1, 1]"
    unfolding jc_kgrid_from_cell_volume_eq [OF v] f c
    by (simp add: candidate_relative_error_def grid_density_def orthorhombic_def)
  have d: "get_volume (orthorhombic 1 1 1) * of_int 1 * of_int 1 * of_int 1 < 216 / 125"
    by (simp add: get_volume_def orthorhombic_def)
  have n: "floor_count pw (orthorhombic 1 1 1) (216 / 125) False (cell_a (orthorhombic 1 1 1)) = 1"
    by (simp add: floor_count_def frac_count_def step_of_def m)
       (simp add: orthorhombic_def mx fl1)
  have e: "cell_a (orthorhombic 1 1 1) = cell_b (orthorhombic 1 1 1)"
    "cell_b (orthorhombic 1 1 1) = cell_c (orthorhombic 1 1 1)"
    by (simp_all add: orthorhombic_def)
  have g: "fst (get_kpts_from_kpd pw (orthorhombic 1 1 1) (216 / 125) False False [])
      = Some [2, 2, 2]"
    unfolding get_kpts_cubic [OF v e] n by (simp add: orthorhombic_def)
  show ?thesis
    using v r j d g by blast
qed

theorem kgrid_from_cell_volume_below_target_witness:
  "1 < root 3 (216 / 125) \<and> root 3 (216 / 125) < 2 \<and>
   valid_input (orthorhombic 1 1 1) (216 / 125) \<and>
   kgrid_from_cell_volume (root 3) (orthorhombic 1 1 1) (216 / 125) = Some [1, 1, 1] \<and>
   jc_kgrid_from_cell_volume (root 3) (orthorhombic 1 1 1) (216 / 125) = Some [1, 1, 1] \<and>
   get_volume (orthorhombic 1 1 1) * of_int 1 * of_int 1 * of_int 1 < 216 / 125 \<and>
   fst (get_kpts_from_kpd (root 3) (orthorhombic 1 1 1) (216 / 125) False False [])
     = Some [2, 2, 2]"
proof -
  have a: "1 < root 3 (216 / 125)" and b: "root 3 (216 / 125) < 2"
    by (simp_all add: root3_216_125)
  show ?thesis
    using a b kgrid_from_cell_volume_below_target [of "root 3", OF a b] by blast
qed

end
